theory Spec2Isabelle
  imports Main "HOL-Library.Word"
begin

section \<open>Go library functions the handlers call\<close>

text \<open>
  The file \<^verbatim>\<open>server/subsonic/stream.go\<close> is present in two listings: the first
  (lines 19-164) delivers a stream inline in the \<^verbatim>\<open>Stream\<close> handler, the second
  (lines 184-353) moves delivery into \<^verbatim>\<open>serveStream\<close>, shared by \<^verbatim>\<open>Stream\<close> and
  \<^verbatim>\<open>Download\<close>. The handlers of the first listing carry the suffix 1, those of the
  second the suffix 2.

  Go strings are byte sequences, as \<^typ>\<open>string\<close> is. Both calls of \<^verbatim>\<open>strings.Split\<close>
  and the call of \<^verbatim>\<open>strings.ReplaceAll\<close> pass one-byte separators, so the separator
  is a \<^typ>\<open>char\<close> here.
\<close>

type_synonym byte = "8 word"

definition strings_HasPrefix :: "string \<Rightarrow> string \<Rightarrow> bool" where
  "strings_HasPrefix s p = (take (length p) s = p)"

fun strings_Split :: "string \<Rightarrow> char \<Rightarrow> string list" where
  "strings_Split [] sep = [[]]"
| "strings_Split (c # cs) sep =
     (if c = sep then [] # strings_Split cs sep
      else (case strings_Split cs sep of
              [] \<Rightarrow> [[c]]
            | piece # pieces \<Rightarrow> (c # piece) # pieces))"

definition strings_ReplaceAll :: "string \<Rightarrow> char \<Rightarrow> char \<Rightarrow> string" where
  "strings_ReplaceAll s old new = map (\<lambda>c. if c = old then new else c) s"

subsection \<open>strconv.Atoi on a 64-bit platform\<close>

datatype numError = ErrSyntax | ErrRange

text \<open>The value of a decimal digit byte: \<^verbatim>\<open>'0' <= c && c <= '9'\<close>, then \<^verbatim>\<open>c - '0'\<close>.\<close>

definition digit_of :: "char \<Rightarrow> nat option" where
  "digit_of c =
     (let code = (of_char c :: nat)
      in if of_char CHR ''0'' \<le> code \<and> code \<le> of_char CHR ''9''
         then Some (code - of_char CHR ''0'') else None)"

definition maxUint64 :: nat where
  "maxUint64 = 18446744073709551615"

text \<open>
  \<^verbatim>\<open>ParseUint(s, 10, 64)\<close>: the digits are read left to right and the function returns
  at the first byte that is no digit (syntax error, value 0) or at the first digit that
  overflows (range error, the largest value).
\<close>

fun ParseUint_loop :: "nat \<Rightarrow> string \<Rightarrow> nat \<times> numError option" where
  "ParseUint_loop n [] = (n, None)"
| "ParseUint_loop n (c # cs) =
     (case digit_of c of
        None \<Rightarrow> (0, Some ErrSyntax)
      | Some d \<Rightarrow>
          if n \<ge> maxUint64 div 10 + 1 then (maxUint64, Some ErrRange)
          else if n * 10 + d > maxUint64 then (maxUint64, Some ErrRange)
          else ParseUint_loop (n * 10 + d) cs)"

definition ParseUint :: "string \<Rightarrow> nat \<times> numError option" where
  "ParseUint s = (if s = [] then (0, Some ErrSyntax) else ParseUint_loop 0 s)"

definition ParseInt :: "string \<Rightarrow> int \<times> numError option" where
  "ParseInt s =
     (case s of
        [] \<Rightarrow> (0, Some ErrSyntax)
      | c # cs \<Rightarrow>
          (let neg = (c = CHR ''-'');
               s' = (if c = CHR ''+'' \<or> c = CHR ''-'' then cs else s);
               (un, err) = ParseUint s'
           in if err = Some ErrSyntax then (0, err)
              else if \<not> neg \<and> un \<ge> 2 ^ 63 then (2 ^ 63 - 1, Some ErrRange)
              else if neg \<and> un > 2 ^ 63 then (- (2 ^ 63), Some ErrRange)
              else (if neg then - int un else int un, None)))"

text \<open>The fast path of \<^verbatim>\<open>Atoi\<close> (strings of 1 to 18 bytes): no overflow check is needed.\<close>

fun Atoi_loop :: "int \<Rightarrow> string \<Rightarrow> int option" where
  "Atoi_loop n [] = Some n"
| "Atoi_loop n (ch # s) =
     (case digit_of ch of
        None \<Rightarrow> None
      | Some d \<Rightarrow> Atoi_loop (n * 10 + int d) s)"

definition Atoi :: "string \<Rightarrow> int \<times> numError option" where
  "Atoi s0 =
     (case s0 of
        [] \<Rightarrow> ParseInt s0
      | c # cs \<Rightarrow>
          if length s0 < 19 then
            (let s = (if c = CHR ''-'' \<or> c = CHR ''+'' then cs else s0)
             in if s = [] then (0, Some ErrSyntax)
                else (case Atoi_loop 0 s of
                        None \<Rightarrow> (0, Some ErrSyntax)
                      | Some n \<Rightarrow> (if c = CHR ''-'' then - n else n, None)))
          else ParseInt s0)"

subsection \<open>strconv.Itoa and the one format string\<close>

fun digits :: "nat \<Rightarrow> string" where
  "digits n =
     (if n < 10 then [''0123456789'' ! n]
      else digits (n div 10) @ [''0123456789'' ! (n mod 10)])"

declare digits.simps [simp del]

definition Itoa :: "int \<Rightarrow> string" where
  "Itoa i = (if i < 0 then CHR ''-'' # digits (nat (- i)) else digits (nat i))"

text \<open>\<^verbatim>\<open>fmt.Sprintf("bytes %d-%d/%d", start, end, n)\<close>\<close>

definition Sprintf_range :: "int \<Rightarrow> int \<Rightarrow> int \<Rightarrow> string" where
  "Sprintf_range startPosition endPosition n =
     ''bytes '' @ Itoa startPosition @ ''-'' @ Itoa endPosition @ ''/'' @ Itoa n"

section \<open>Data model\<close>

subsection \<open>The resolved stream\<close>

text \<open>
  \<^verbatim>\<open>core.Stream\<close> as the handlers see it: the results of its accessor methods, the
  bytes that reading will still yield before end of file or a read error
  (\<open>pending\<close>), and whether \<^verbatim>\<open>Close\<close> has been called. \<open>Duration\<close> holds the
  text that \<^verbatim>\<open>strconv.FormatFloat(float64(stream.Duration()), 'G', -1, 32)\<close> yields;
  the floating-point formatting is not part of the embedding.
\<close>

record stream =
  Name :: string
  ContentType :: string
  Duration :: string
  ModTime :: int
  Seekable :: bool
  EstimatedContentLength :: int
  pending :: "byte list"
  closed :: bool

text \<open>\<^verbatim>\<open>io.ReadAll(stream)\<close>: every pending byte, the error being dropped by the caller.\<close>

definition io_ReadAll :: "stream \<Rightarrow> byte list \<times> stream" where
  "io_ReadAll s = (pending s, s\<lparr>pending := []\<rparr>)"

text \<open>\<^verbatim>\<open>stream.Close()\<close>; its error is only logged.\<close>

definition Close :: "stream \<Rightarrow> stream" where
  "Close s = s\<lparr>closed := True\<rparr>"

subsection \<open>The response writer\<close>

text \<open>
  \<^verbatim>\<open>http.ResponseWriter\<close> as the handler drives it: the header map, the status once
  \<^verbatim>\<open>WriteHeader\<close> has run together with the headers as they stood at that moment
  (later changes of the map are not sent), and the bytes handed to \<^verbatim>\<open>Write\<close>.
  The first \<^verbatim>\<open>Write\<close> sends status 200 if no status was sent before. Writes are
  taken to succeed; the handlers only log a failed write.
\<close>

record ResponseWriter =
  hdrs :: "string \<rightharpoonup> string"
  status :: "nat option"
  sentHdrs :: "string \<rightharpoonup> string"
  body :: "byte list"

definition newResponseWriter :: ResponseWriter where
  "newResponseWriter = \<lparr>hdrs = Map.empty, status = None, sentHdrs = Map.empty, body = []\<rparr>"

definition Header_Set :: "ResponseWriter \<Rightarrow> string \<Rightarrow> string \<Rightarrow> ResponseWriter" where
  "Header_Set w k v = w\<lparr>hdrs := (hdrs w)(k \<mapsto> v)\<rparr>"

definition WriteHeader :: "ResponseWriter \<Rightarrow> nat \<Rightarrow> ResponseWriter" where
  "WriteHeader w code =
     (case status w of
        None \<Rightarrow> w\<lparr>status := Some code, sentHdrs := hdrs w\<rparr>
      | Some _ \<Rightarrow> w)"

definition Write :: "ResponseWriter \<Rightarrow> byte list \<Rightarrow> ResponseWriter" where
  "Write w bs = (let w' = WriteHeader w 200 in w'\<lparr>body := body w' @ bs\<rparr>)"

text \<open>What the client receives once the handler has returned.\<close>

definition respStatus :: "ResponseWriter \<Rightarrow> nat" where
  "respStatus w = (case status w of None \<Rightarrow> 200 | Some code \<Rightarrow> code)"

definition respHeaders :: "ResponseWriter \<Rightarrow> (string \<rightharpoonup> string)" where
  "respHeaders w = (case status w of None \<Rightarrow> hdrs w | Some _ \<Rightarrow> sentHdrs w)"

text \<open>
  \<^verbatim>\<open>io.Copy(w, stream)\<close>: every pending byte goes to the writer; an empty stream
  causes no \<^verbatim>\<open>Write\<close> at all.
\<close>

definition io_Copy :: "ResponseWriter \<Rightarrow> stream \<Rightarrow> ResponseWriter \<times> stream" where
  "io_Copy w s =
     (if pending s = [] then (w, s) else (Write w (pending s), s\<lparr>pending := []\<rparr>))"

subsection \<open>The request\<close>

record transcoding =
  TargetFormat :: string
  DefaultBitRate :: int

text \<open>
  The request carries its method, its headers, the query parameters as the
  parameter layer decodes them (text, integer and boolean views), and the transcoding
  profile that \<^verbatim>\<open>request.TranscodingFrom(ctx)\<close> finds in its context, if any.
\<close>

record request =
  Method :: string
  Header :: "string \<rightharpoonup> string"
  strParams :: "string \<rightharpoonup> string"
  intParams :: "string \<rightharpoonup> int"
  boolParams :: "string \<rightharpoonup> bool"
  TranscodingFrom :: "transcoding option"

text \<open>\<^verbatim>\<open>r.Header.Get(key)\<close> is the empty string when the header is absent.\<close>

definition Header_Get :: "request \<Rightarrow> string \<Rightarrow> string" where
  "Header_Get r k = (case Header r k of None \<Rightarrow> [] | Some v \<Rightarrow> v)"

datatype errcode = ErrorMissingParameter | ErrorAuthorizationFail

datatype error =
    SubsonicError errcode string
  | ErrNotFound
  | CollaboratorError string

text \<open>
  Modelled from the spec: the parameter helpers \<^verbatim>\<open>utils.ParamString\<close>,
  \<^verbatim>\<open>utils.ParamInt\<close>, \<^verbatim>\<open>utils.ParamBool\<close> and \<^verbatim>\<open>requiredParamString\<close> are
  not in this file. The spec lists the parameters as optional text, integer and boolean
  values with the default the call site passes, and \<open>id\<close> as required: a request
  without it fails before anything else happens.
\<close>

definition ParamString :: "request \<Rightarrow> string \<Rightarrow> string" where
  "ParamString r p = (case strParams r p of None \<Rightarrow> [] | Some v \<Rightarrow> v)"

definition ParamInt :: "request \<Rightarrow> string \<Rightarrow> int \<Rightarrow> int" where
  "ParamInt r p def = (case intParams r p of None \<Rightarrow> def | Some v \<Rightarrow> v)"

definition ParamBool :: "request \<Rightarrow> string \<Rightarrow> bool \<Rightarrow> bool" where
  "ParamBool r p def = (case boolParams r p of None \<Rightarrow> def | Some v \<Rightarrow> v)"

definition requiredParamString :: "request \<Rightarrow> string \<Rightarrow> error + string" where
  "requiredParamString r p =
     (if ParamString r p = [] then Inl (SubsonicError ErrorMissingParameter p)
      else Inr (ParamString r p))"

subsection \<open>Configuration and collaborators\<close>

record conf =
  EnableDownloads :: bool
  AutoTranscodeDownload :: bool

datatype entity =
    MediaFile
  | Album string
  | Artist string
  | Playlist string
  | OtherEntity

text \<open>
  A call of the archiver: the collection's id and, in the second listing only, the
  format and bitrate ceiling handed on for its members.
\<close>

datatype archive_call =
    ZipAlbum string "(string \<times> int) option"
  | ZipArtist string "(string \<times> int) option"
  | ZipPlaylist string "(string \<times> int) option"

text \<open>
  The collaborators behind \<^verbatim>\<open>api\<close> and the library routine \<^verbatim>\<open>http.ServeContent\<close>
  are parameters. \<open>ServeContent\<close> gets the request, the name, the modification time
  and the stream's bytes, and returns the writer and the bytes left pending; it has no
  access to \<^verbatim>\<open>Close\<close>. The archiver returns the chunks it writes and its error.
\<close>

record deps =
  NewStream :: "string \<Rightarrow> string \<Rightarrow> int \<Rightarrow> error + stream"
  GetEntityByID :: "string \<Rightarrow> error + entity"
  ServeContent :: "request \<Rightarrow> string \<Rightarrow> int \<Rightarrow> byte list \<Rightarrow> ResponseWriter
                     \<Rightarrow> ResponseWriter \<times> byte list"
  archiver :: "archive_call \<Rightarrow> byte list list \<times> error option"

datatype call =
    CallGetEntityByID string
  | CallNewStream string string int
  | CallArchiver archive_call

text \<open>The one kind of detached goroutine: \<^verbatim>\<open>io.Copy(io.Discard, stream)\<close>.\<close>

datatype task = DiscardCopy

text \<open>
  What delivery leaves behind: the writer, the stream, the goroutines started, and
  whether an index was out of range (a run-time panic).
\<close>

record delivery =
  d_w :: ResponseWriter
  d_stream :: stream
  d_tasks :: "task list"
  d_panic :: bool

text \<open>
  What a handler leaves behind: the returned error (the returned response is always
  nil), the writer, the stream if one was resolved, the goroutines started, the
  collaborator calls in order, and whether it panicked.
\<close>

record outcome =
  result :: "error option"
  resp :: ResponseWriter
  strm :: "stream option"
  tasks :: "task list"
  calls :: "call list"
  panicked :: bool

section \<open>Delivery\<close>

text \<open>
  Logging is left out of the embedding: it reads the outcome of a write or of
  \<^verbatim>\<open>Close\<close> and changes neither the response nor the stream.
\<close>

text \<open>
  Lines 51-58 and 192-199: start and end position from the Range header.
  \<open>None\<close> stands for the panic of an index out of range.
\<close>

definition rangePositions :: "string \<Rightarrow> (int \<times> int) option" where
  "rangePositions reqRange =
     (case strings_Split reqRange CHR ''='' of
        _ # spec # _ \<Rightarrow>
          (case strings_Split spec CHR ''-'' of
             [] \<Rightarrow> None
           | b0 # rest \<Rightarrow>
               (let startPosition = fst (Atoi b0);
                    endPosition =
                      (case rest of
                         [] \<Rightarrow> 0
                       | b1 # _ \<Rightarrow> if b1 \<noteq> [] then fst (Atoi b1) else 0)
                in Some (startPosition, endPosition)))
      | _ \<Rightarrow> None)"

text \<open>Lines 61-71 and 202-212: the answer to a range of 0-1.\<close>

definition probeResponse :: "stream \<Rightarrow> ResponseWriter \<Rightarrow> int \<Rightarrow> int \<Rightarrow> ResponseWriter \<times> stream" where
  "probeResponse stream w startPosition endPosition =
     (let (data, stream') = io_ReadAll stream;
          w1 = Header_Set w ''Content-Range''
                 (Sprintf_range startPosition endPosition (int (length data)));
          w2 = Header_Set w1 ''Accept-Ranges'' ''bytes'';
          w3 = Header_Set w2 ''Content-Type'' ''audio/aac'';
          w4 = WriteHeader w3 206;
          w5 = Header_Set w4 ''Status'' ''206'';
          one = replicate 2 (0 :: byte);
          w6 = Write w5 one
      in (w6, stream'))"

text \<open>Lines 84-105 and 223-246: the answer without range support.\<close>

definition fullResponse :: "request \<Rightarrow> bool \<Rightarrow> stream \<Rightarrow> ResponseWriter \<Rightarrow> delivery" where
  "fullResponse r estimateContentLength stream w =
     (let w1 = Header_Set w ''Accept-Ranges'' ''none'';
          w2 = Header_Set w1 ''Content-Type'' (ContentType stream);
          w3 = (if estimateContentLength
                then Header_Set w2 ''Content-Length'' (Itoa (EstimatedContentLength stream))
                else w2)
      in if Method r = ''HEAD''
         then \<lparr>d_w = w3, d_stream = stream, d_tasks = [DiscardCopy], d_panic = False\<rparr>
         else (let (w4, stream') = io_Copy w3 stream
               in \<lparr>d_w = w4, d_stream = stream', d_tasks = [], d_panic = False\<rparr>))"

text \<open>Lines 45 and 186: a seekable stream goes to \<^verbatim>\<open>http.ServeContent\<close>.\<close>

definition seekableResponse :: "deps \<Rightarrow> request \<Rightarrow> stream \<Rightarrow> ResponseWriter \<Rightarrow> delivery" where
  "seekableResponse api r stream w =
     (let (w', rest) = ServeContent api r (Name stream) (ModTime stream) (pending stream) w
      in \<lparr>d_w = w', d_stream = stream\<lparr>pending := rest\<rparr>, d_tasks = [], d_panic = False\<rparr>)"

text \<open>
  \<^verbatim>\<open>serveStream\<close> of the second listing (lines 184-249). The full answer is the
  \<^verbatim>\<open>else\<close> of the test for a \<^verbatim>\<open>bytes=\<close> header, so a \<^verbatim>\<open>bytes=\<close> header that
  is no 0-1 range gets nothing.
\<close>

definition serveStream :: "deps \<Rightarrow> request \<Rightarrow> stream \<Rightarrow> ResponseWriter \<Rightarrow> delivery" where
  "serveStream api r stream w =
     (if Seekable stream then seekableResponse api r stream w
      else
        (let reqRange = Header_Get r ''Range'' in
         if reqRange \<noteq> [] \<and> strings_HasPrefix reqRange ''bytes='' then
           (case rangePositions reqRange of
              None \<Rightarrow> \<lparr>d_w = w, d_stream = stream, d_tasks = [], d_panic = True\<rparr>
            | Some (startPosition, endPosition) \<Rightarrow>
                if startPosition = 0 \<and> endPosition = 1 then
                  (let (w', stream') = probeResponse stream w startPosition endPosition
                   in \<lparr>d_w = w', d_stream = stream', d_tasks = [], d_panic = False\<rparr>)
                else \<lparr>d_w = w, d_stream = stream, d_tasks = [], d_panic = False\<rparr>)
         else
           fullResponse r (ParamBool r ''estimateContentLength'' False) stream w))"

text \<open>
  The delivery part of \<^verbatim>\<open>Stream\<close> in the first listing (lines 44-106). The probe
  branch returns from the handler; every other non-seekable request falls through to
  the full answer.
\<close>

definition deliverInline :: "deps \<Rightarrow> request \<Rightarrow> bool \<Rightarrow> stream \<Rightarrow> ResponseWriter \<Rightarrow> delivery" where
  "deliverInline api r estimateContentLength stream w =
     (if Seekable stream then seekableResponse api r stream w
      else
        (let reqRange = Header_Get r ''Range'' in
         if reqRange \<noteq> [] \<and> strings_HasPrefix reqRange ''bytes='' then
           (case rangePositions reqRange of
              None \<Rightarrow> \<lparr>d_w = w, d_stream = stream, d_tasks = [], d_panic = True\<rparr>
            | Some (startPosition, endPosition) \<Rightarrow>
                if startPosition = 0 \<and> endPosition = 1 then
                  (let (w', stream') = probeResponse stream w startPosition endPosition
                   in \<lparr>d_w = w', d_stream = stream', d_tasks = [], d_panic = False\<rparr>)
                else fullResponse r estimateContentLength stream w)
         else fullResponse r estimateContentLength stream w))"

section \<open>Handlers\<close>

text \<open>\<^verbatim>\<open>Stream\<close> of the first listing (lines 19-109). The deferred \<^verbatim>\<open>Close\<close> runs on every
  return after the stream was resolved, also when delivery panics.\<close>

definition Stream1 :: "deps \<Rightarrow> request \<Rightarrow> ResponseWriter \<Rightarrow> outcome" where
  "Stream1 api r w =
     (case requiredParamString r ''id'' of
        Inl err \<Rightarrow>
          \<lparr>result = Some err, resp = w, strm = None, tasks = [], calls = [], panicked = False\<rparr>
      | Inr ident \<Rightarrow>
          (let maxBitRate = ParamInt r ''maxBitRate'' 0;
               format = ParamString r ''format'';
               estimateContentLength = ParamBool r ''estimateContentLength'' False
           in case NewStream api ident format maxBitRate of
                Inl err \<Rightarrow>
                  \<lparr>result = Some err, resp = w, strm = None, tasks = [],
                   calls = [CallNewStream ident format maxBitRate], panicked = False\<rparr>
              | Inr stream \<Rightarrow>
                  (let w1 = Header_Set w ''X-Content-Type-Options'' ''nosniff'';
                       w2 = Header_Set w1 ''X-Content-Duration'' (Duration stream);
                       d = deliverInline api r estimateContentLength stream w2
                   in \<lparr>result = None, resp = d_w d, strm = Some (Close (d_stream d)),
                       tasks = d_tasks d, calls = [CallNewStream ident format maxBitRate],
                       panicked = d_panic d\<rparr>)))"

text \<open>\<^verbatim>\<open>Stream\<close> of the second listing (lines 251-278).\<close>

definition Stream2 :: "deps \<Rightarrow> request \<Rightarrow> ResponseWriter \<Rightarrow> outcome" where
  "Stream2 api r w =
     (case requiredParamString r ''id'' of
        Inl err \<Rightarrow>
          \<lparr>result = Some err, resp = w, strm = None, tasks = [], calls = [], panicked = False\<rparr>
      | Inr ident \<Rightarrow>
          (let maxBitRate = ParamInt r ''maxBitRate'' 0;
               format = ParamString r ''format''
           in case NewStream api ident format maxBitRate of
                Inl err \<Rightarrow>
                  \<lparr>result = Some err, resp = w, strm = None, tasks = [],
                   calls = [CallNewStream ident format maxBitRate], panicked = False\<rparr>
              | Inr stream \<Rightarrow>
                  (let w1 = Header_Set w ''X-Content-Type-Options'' ''nosniff'';
                       w2 = Header_Set w1 ''X-Content-Duration'' (Duration stream);
                       d = serveStream api r stream w2
                   in \<lparr>result = None, resp = d_w d, strm = Some (Close (d_stream d)),
                       tasks = d_tasks d, calls = [CallNewStream ident format maxBitRate],
                       panicked = d_panic d\<rparr>)))"

text \<open>The closure \<^verbatim>\<open>setHeaders\<close> of both \<^verbatim>\<open>Download\<close> handlers (lines 129-134, 319-324).\<close>

definition dquote :: char where
  "dquote = CHR 0x22"

definition setHeaders :: "ResponseWriter \<Rightarrow> string \<Rightarrow> ResponseWriter" where
  "setHeaders w name =
     (let name' = strings_ReplaceAll name CHR '','' CHR ''_'';
          disposition = ''attachment; filename='' @ [dquote] @ name' @ ''.zip'' @ [dquote];
          w1 = Header_Set w ''Content-Disposition'' disposition
      in Header_Set w1 ''Content-Type'' ''application/zip'')"

text \<open>One collection case of the type switch: the headers, then the archiver writing
  its chunks to the response.\<close>

definition zipTo :: "deps \<Rightarrow> archive_call \<Rightarrow> string \<Rightarrow> ResponseWriter \<Rightarrow> ResponseWriter \<times> error option" where
  "zipTo api c name w =
     (let w1 = setHeaders w name;
          (chunks, err) = archiver api c
      in (foldl Write w1 chunks, err))"

text \<open>\<^verbatim>\<open>Download\<close> of the first listing (lines 111-164): a media file is always resolved
  as \<open>raw\<close> with ceiling 0 and handed to \<^verbatim>\<open>http.ServeContent\<close>; no \<^verbatim>\<open>Close\<close>
  is called or deferred.\<close>

definition Download1 :: "conf \<Rightarrow> deps \<Rightarrow> request \<Rightarrow> ResponseWriter \<Rightarrow> outcome" where
  "Download1 cfg api r w =
     (case requiredParamString r ''id'' of
        Inl err \<Rightarrow>
          \<lparr>result = Some err, resp = w, strm = None, tasks = [], calls = [], panicked = False\<rparr>
      | Inr ident \<Rightarrow>
          if \<not> EnableDownloads cfg then
            \<lparr>result = Some (SubsonicError ErrorAuthorizationFail ''downloads are disabled''),
             resp = w, strm = None, tasks = [], calls = [], panicked = False\<rparr>
          else
            (case GetEntityByID api ident of
               Inl err \<Rightarrow>
                 \<lparr>result = Some err, resp = w, strm = None, tasks = [],
                  calls = [CallGetEntityByID ident], panicked = False\<rparr>
             | Inr entity \<Rightarrow>
                 (case entity of
                    MediaFile \<Rightarrow>
                      (case NewStream api ident ''raw'' 0 of
                         Inl err \<Rightarrow>
                           \<lparr>result = Some err, resp = w, strm = None, tasks = [],
                            calls = [CallGetEntityByID ident, CallNewStream ident ''raw'' 0],
                            panicked = False\<rparr>
                       | Inr stream \<Rightarrow>
                           (let disposition =
                                  ''attachment; filename='' @ [dquote] @ Name stream @ [dquote];
                                w1 = Header_Set w ''Content-Disposition'' disposition;
                                d = seekableResponse api r stream w1
                            in \<lparr>result = None, resp = d_w d, strm = Some (d_stream d),
                                tasks = d_tasks d,
                                calls = [CallGetEntityByID ident, CallNewStream ident ''raw'' 0],
                                panicked = d_panic d\<rparr>))
                  | Album name \<Rightarrow>
                      (let (w', err) = zipTo api (ZipAlbum ident None) name w
                       in \<lparr>result = err, resp = w', strm = None, tasks = [],
                           calls = [CallGetEntityByID ident, CallArchiver (ZipAlbum ident None)],
                           panicked = False\<rparr>)
                  | Artist name \<Rightarrow>
                      (let (w', err) = zipTo api (ZipArtist ident None) name w
                       in \<lparr>result = err, resp = w', strm = None, tasks = [],
                           calls = [CallGetEntityByID ident, CallArchiver (ZipArtist ident None)],
                           panicked = False\<rparr>)
                  | Playlist name \<Rightarrow>
                      (let (w', err) = zipTo api (ZipPlaylist ident None) name w
                       in \<lparr>result = err, resp = w', strm = None, tasks = [],
                           calls = [CallGetEntityByID ident, CallArchiver (ZipPlaylist ident None)],
                           panicked = False\<rparr>)
                  | OtherEntity \<Rightarrow>
                      \<lparr>result = Some ErrNotFound, resp = w, strm = None, tasks = [],
                       calls = [CallGetEntityByID ident], panicked = False\<rparr>)))"

text \<open>Lines 298-317: the format and the bitrate ceiling a download works with.\<close>

definition downloadFormat :: "conf \<Rightarrow> request \<Rightarrow> string \<times> int" where
  "downloadFormat cfg r =
     (let maxBitRate = ParamInt r ''bitrate'' 0;
          format = ParamString r ''format''
      in if format = [] then
           (if AutoTranscodeDownload cfg then
              (case TranscodingFrom r of
                 None \<Rightarrow> (''raw'', maxBitRate)
               | Some transcoding \<Rightarrow> (TargetFormat transcoding, DefaultBitRate transcoding))
            else (''raw'', maxBitRate))
         else (format, maxBitRate))"

text \<open>\<^verbatim>\<open>Download\<close> of the second listing (lines 280-353): a media file goes through
  \<^verbatim>\<open>serveStream\<close>; again no \<^verbatim>\<open>Close\<close> is called or deferred.\<close>

definition Download2 :: "conf \<Rightarrow> deps \<Rightarrow> request \<Rightarrow> ResponseWriter \<Rightarrow> outcome" where
  "Download2 cfg api r w =
     (case requiredParamString r ''id'' of
        Inl err \<Rightarrow>
          \<lparr>result = Some err, resp = w, strm = None, tasks = [], calls = [], panicked = False\<rparr>
      | Inr ident \<Rightarrow>
          if \<not> EnableDownloads cfg then
            \<lparr>result = Some (SubsonicError ErrorAuthorizationFail ''downloads are disabled''),
             resp = w, strm = None, tasks = [], calls = [], panicked = False\<rparr>
          else
            (case GetEntityByID api ident of
               Inl err \<Rightarrow>
                 \<lparr>result = Some err, resp = w, strm = None, tasks = [],
                  calls = [CallGetEntityByID ident], panicked = False\<rparr>
             | Inr entity \<Rightarrow>
                 (let (format, maxBitRate) = downloadFormat cfg r;
                      args = Some (format, maxBitRate)
                  in case entity of
                    MediaFile \<Rightarrow>
                      (case NewStream api ident format maxBitRate of
                         Inl err \<Rightarrow>
                           \<lparr>result = Some err, resp = w, strm = None, tasks = [],
                            calls = [CallGetEntityByID ident,
                                     CallNewStream ident format maxBitRate],
                            panicked = False\<rparr>
                       | Inr stream \<Rightarrow>
                           (let disposition =
                                  ''attachment; filename='' @ [dquote] @ Name stream @ [dquote];
                                w1 = Header_Set w ''Content-Disposition'' disposition;
                                d = serveStream api r stream w1
                            in \<lparr>result = None, resp = d_w d, strm = Some (d_stream d),
                                tasks = d_tasks d,
                                calls = [CallGetEntityByID ident,
                                         CallNewStream ident format maxBitRate],
                                panicked = d_panic d\<rparr>))
                  | Album name \<Rightarrow>
                      (let (w', err) = zipTo api (ZipAlbum ident args) name w
                       in \<lparr>result = err, resp = w', strm = None, tasks = [],
                           calls = [CallGetEntityByID ident, CallArchiver (ZipAlbum ident args)],
                           panicked = False\<rparr>)
                  | Artist name \<Rightarrow>
                      (let (w', err) = zipTo api (ZipArtist ident args) name w
                       in \<lparr>result = err, resp = w', strm = None, tasks = [],
                           calls = [CallGetEntityByID ident, CallArchiver (ZipArtist ident args)],
                           panicked = False\<rparr>)
                  | Playlist name \<Rightarrow>
                      (let (w', err) = zipTo api (ZipPlaylist ident args) name w
                       in \<lparr>result = err, resp = w', strm = None, tasks = [],
                           calls = [CallGetEntityByID ident, CallArchiver (ZipPlaylist ident args)],
                           panicked = False\<rparr>)
                  | OtherEntity \<Rightarrow>
                      \<lparr>result = Some ErrNotFound, resp = w, strm = None, tasks = [],
                       calls = [CallGetEntityByID ident], panicked = False\<rparr>)))"

section \<open>The detached goroutine\<close>

text \<open>
  Modelled from the spec: the read and close operations of \<^verbatim>\<open>core.Stream\<close> are not in
  this file. "Closing the Stream must: stop draining, terminate the process if still
  running, and release all process resources", so a read from a closed stream yields
  no byte. The goroutine \<^verbatim>\<open>io.Copy(io.Discard, stream)\<close> of lines 95 and 236 therefore
  reads every pending byte of an open stream and none of a closed one. (The handlers
  themselves read only before any \<^verbatim>\<open>Close\<close>.)
\<close>

definition io_Copy_Discard :: "stream \<Rightarrow> stream" where
  "io_Copy_Discard s = (if closed s then s else s\<lparr>pending := []\<rparr>)"

definition runTask :: "task \<Rightarrow> stream \<Rightarrow> stream" where
  "runTask t s = (case t of DiscardCopy \<Rightarrow> io_Copy_Discard s)"

text \<open>
  The \<^verbatim>\<open>go\<close> statement only starts the goroutine: the handler goes on, returns, and
  its deferred calls run. \<open>settled\<close> is the stream once the handler has returned and
  the goroutines it started have run to their end, for the schedule in which a goroutine
  gets to read only after the return. \<open>readBytes k\<close> is the progress of a goroutine
  that has read \<open>k\<close> bytes, for the other schedules.
\<close>

definition settled :: "outcome \<Rightarrow> stream option" where
  "settled out = map_option (\<lambda>s. foldl (\<lambda>s' t. runTask t s') s (tasks out)) (strm out)"

definition readBytes :: "nat \<Rightarrow> stream \<Rightarrow> stream" where
  "readBytes k s = (if closed s then s else s\<lparr>pending := drop k (pending s)\<rparr>)"

section \<open>Sample inputs and statement predicates\<close>

text \<open>
  A non-seekable stream that yields the bytes 1, 2, 3, collaborators that resolve the
  track \<open>tr-1\<close> to it and know the album \<open>al-1\<close>, and requests with a method, an
  \<open>id\<close> (none when empty) and a Range header (none when empty) that ask for an
  estimated content length.
\<close>

definition liveStream :: stream where
  "liveStream = \<lparr>Name = ''song.mp3'', ContentType = ''audio/mpeg'', Duration = ''180'',
     ModTime = 0, Seekable = False, EstimatedContentLength = 4096,
     pending = [1, 2, 3], closed = False\<rparr>"

definition api0 :: deps where
  "api0 = \<lparr>NewStream = (\<lambda>ident format maxBitRate. Inr liveStream),
     GetEntityByID = (\<lambda>ident. if ident = ''al-1'' then Inr (Album ''Hits, Vol. 1'')
                                else if ident = ''tr-1'' then Inr MediaFile else Inl ErrNotFound),
     ServeContent = (\<lambda>r name modtime bs w. (Write w bs, [])),
     archiver = (\<lambda>c. ([[80, 75]], None))\<rparr>"


definition mkRequest :: "string \<Rightarrow> string \<Rightarrow> string \<Rightarrow> request" where
  "mkRequest m ident rng =
     \<lparr>Method = m, Header = (if rng = [] then Map.empty else [''Range'' \<mapsto> rng]),
      strParams = (if ident = [] then Map.empty else [''id'' \<mapsto> ident]),
      intParams = Map.empty,
      boolParams = [''estimateContentLength'' \<mapsto> True], TranscodingFrom = None\<rparr>"

text \<open>A decimal number as \<^verbatim>\<open>Atoi\<close> accepts it: an optional sign, then one or more digits.\<close>

definition isDecimal :: "string \<Rightarrow> bool" where
  "isDecimal s =
     (case s of
        [] \<Rightarrow> False
      | c # cs \<Rightarrow>
          (let ds = (if c = CHR ''-'' \<or> c = CHR ''+'' then cs else s)
           in ds \<noteq> [] \<and> list_all (\<lambda>ch. digit_of ch \<noteq> None) ds))"

text \<open>
  Served as a full request, in the words of the spec: \<open>Accept-Ranges: none\<close>, the
  content type of the stream, and the body copied to the response (nothing for HEAD).
\<close>

definition servedAsFull :: "request \<Rightarrow> stream \<Rightarrow> ResponseWriter \<Rightarrow> delivery \<Rightarrow> bool" where
  "servedAsFull r stream w d =
     (respHeaders (d_w d) ''Accept-Ranges'' = Some ''none''
      \<and> respHeaders (d_w d) ''Content-Type'' = Some (ContentType stream)
      \<and> body (d_w d) = (if Method r = ''HEAD'' then body w else body w @ pending stream))"


definition cfgOn :: conf where
  "cfgOn = \<lparr>EnableDownloads = True, AutoTranscodeDownload = False\<rparr>"

definition cfgOff :: conf where
  "cfgOff = \<lparr>EnableDownloads = False, AutoTranscodeDownload = False\<rparr>"

lemmas writer_defs = Header_Set_def WriteHeader_def Write_def respStatus_def respHeaders_def

lemma Header_Get_mkRequest [simp]:
  "Header_Get (mkRequest m ident rng) ''Range'' = rng"
  by (simp add: Header_Get_def mkRequest_def)

lemma Itoa_small [simp]: "Itoa 0 = ''0''" "Itoa 1 = ''1''" "Itoa 3 = ''3''"
  by (simp_all add: Itoa_def digits.simps)

subsection \<open>The capability probe\<close>

text \<open>How some Range headers read.\<close>

lemma rp1: "rangePositions ''bytes=0-1'' = Some (0, 1)"
  by (simp add: rangePositions_def Atoi_def digit_of_def)

lemma rp2: "rangePositions ''bytes=x-1'' = Some (0, 1)"
  by (simp add: rangePositions_def Atoi_def digit_of_def)

lemma rp3: "rangePositions ''bytes=-1'' = Some (0, 1)"
  by (simp add: rangePositions_def Atoi_def ParseInt_def digit_of_def)

lemma rp4: "rangePositions ''bytes=5-10'' = Some (5, 10)"
  by (simp add: rangePositions_def Atoi_def digit_of_def)

lemma rp5: "rangePositions ''bytes=0-1=zz'' = Some (0, 1)"
  by (simp add: rangePositions_def Atoi_def digit_of_def)

lemma rp6: "rangePositions ''bytes=5-'' = Some (5, 0)"
  by (simp add: rangePositions_def Atoi_def digit_of_def)

lemma rp7: "rangePositions ''bytes=abc'' = Some (0, 0)"
  by (simp add: rangePositions_def Atoi_def digit_of_def)

lemma probe_fields:
  assumes "status w = None"
  shows "respStatus (fst (probeResponse stream w 0 1)) = 206"
    and "respHeaders (fst (probeResponse stream w 0 1)) ''Content-Range''
           = Some (''bytes 0-1/'' @ Itoa (int (length (pending stream))))"
    and "respHeaders (fst (probeResponse stream w 0 1)) ''Accept-Ranges'' = Some ''bytes''"
    and "respHeaders (fst (probeResponse stream w 0 1)) ''Content-Type'' = Some ''audio/aac''"
    and "respHeaders (fst (probeResponse stream w 0 1)) ''Content-Length'' = hdrs w ''Content-Length''"
    and "respHeaders (fst (probeResponse stream w 0 1)) ''Status'' = hdrs w ''Status''"
    and "body (fst (probeResponse stream w 0 1)) = body w @ [0, 0]"
    and "snd (probeResponse stream w 0 1) = stream\<lparr>pending := []\<rparr>"
  using assms
  by (simp_all add: probeResponse_def io_ReadAll_def writer_defs Sprintf_range_def Let_def
        numeral_2_eq_2)

lemma serveStream_probe:
  assumes "\<not> Seekable stream"
    and "strings_HasPrefix (Header_Get r ''Range'') ''bytes=''"
    and "rangePositions (Header_Get r ''Range'') = Some (0, 1)"
  shows "serveStream api r stream w =
           \<lparr>d_w = fst (probeResponse stream w 0 1), d_stream = snd (probeResponse stream w 0 1),
            d_tasks = [], d_panic = False\<rparr>"
proof -
  from assms(2) have "Header_Get r ''Range'' \<noteq> []"
    by (auto simp: strings_HasPrefix_def)
  with assms show ?thesis
    by (simp add: serveStream_def Let_def split: prod.splits)
qed

lemma deliverInline_probe:
  assumes "\<not> Seekable stream"
    and "strings_HasPrefix (Header_Get r ''Range'') ''bytes=''"
    and "rangePositions (Header_Get r ''Range'') = Some (0, 1)"
  shows "deliverInline api r e stream w =
           \<lparr>d_w = fst (probeResponse stream w 0 1), d_stream = snd (probeResponse stream w 0 1),
            d_tasks = [], d_panic = False\<rparr>"
proof -
  from assms(2) have "Header_Get r ''Range'' \<noteq> []"
    by (auto simp: strings_HasPrefix_def)
  with assms show ?thesis
    by (simp add: deliverInline_def Let_def split: prod.splits)
qed

text \<open>
  C1, amended. For a non-seekable stream and a Range header that reads as 0-1, both
  listings answer with status 206, \<open>Content-Range: bytes 0-1/N\<close> where N counts the
  bytes \<^verbatim>\<open>io.ReadAll\<close> read, \<open>Accept-Ranges: bytes\<close>, \<open>Content-Type: audio/aac\<close>,
  and a body of exactly two zero bytes (the buffer \<^verbatim>\<open>make([]byte, 2)\<close>, which nothing
  fills).
\<close>

theorem C1_probe_response:
  assumes "\<not> Seekable stream"
    and "strings_HasPrefix (Header_Get r ''Range'') ''bytes=''"
    and "rangePositions (Header_Get r ''Range'') = Some (0, 1)"
    and "status w = None"
    and "w' = d_w (serveStream api r stream w) \<or> w' = d_w (deliverInline api r (ParamBool r ''estimateContentLength'' False) stream w)"
  shows "respStatus w' = 206
       \<and> respHeaders w' ''Content-Range''
            = Some (''bytes 0-1/'' @ Itoa (int (length (fst (io_ReadAll stream)))))
       \<and> respHeaders w' ''Accept-Ranges'' = Some ''bytes''
       \<and> respHeaders w' ''Content-Type'' = Some ''audio/aac''
       \<and> body w' = body w @ [0, 0]"
proof -
  from assms(1-3,5) have "w' = fst (probeResponse stream w 0 1)"
    by (auto simp: serveStream_probe deliverInline_probe)
  with probe_fields[OF assms(4), of stream] show ?thesis
    by (simp add: io_ReadAll_def)
qed

theorem C1_probe_response_witness:
  "\<not> Seekable liveStream
   \<and> strings_HasPrefix (Header_Get (mkRequest ''GET'' ''tr-1'' ''bytes=0-1'') ''Range'') ''bytes=''
   \<and> rangePositions (Header_Get (mkRequest ''GET'' ''tr-1'' ''bytes=0-1'') ''Range'') = Some (0, 1)
   \<and> status newResponseWriter = None
   \<and> respStatus (d_w (serveStream api0 (mkRequest ''GET'' ''tr-1'' ''bytes=0-1'') liveStream
                         newResponseWriter)) = 206
   \<and> respHeaders (d_w (serveStream api0 (mkRequest ''GET'' ''tr-1'' ''bytes=0-1'') liveStream
                          newResponseWriter)) ''Content-Range'' = Some ''bytes 0-1/3''
   \<and> respHeaders (d_w (serveStream api0 (mkRequest ''GET'' ''tr-1'' ''bytes=0-1'') liveStream
                          newResponseWriter)) ''Content-Type'' = Some ''audio/aac''
   \<and> body (d_w (serveStream api0 (mkRequest ''GET'' ''tr-1'' ''bytes=0-1'') liveStream
                   newResponseWriter)) = [0, 0]"
proof -
  have h1: "\<not> Seekable liveStream"
    by (simp add: liveStream_def)
  have h2: "strings_HasPrefix (Header_Get (mkRequest ''GET'' ''tr-1'' ''bytes=0-1'') ''Range'')
              ''bytes=''"
    by (simp add: strings_HasPrefix_def)
  have h3: "rangePositions (Header_Get (mkRequest ''GET'' ''tr-1'' ''bytes=0-1'') ''Range'')
              = Some (0, 1)"
    by (simp add: rp1)
  have h4: "status newResponseWriter = None"
    by (simp add: newResponseWriter_def)
  from C1_probe_response[OF h1 h2 h3 h4 disjI1[OF refl], of api0] h1 h2 h3 h4
  show ?thesis
    by (simp add: io_ReadAll_def liveStream_def newResponseWriter_def)
qed

text \<open>
  C1, as stated, fails: the body is not the first two bytes of the stream. For a stream
  that yields 1, 2, 3 the body is 0, 0.
\<close>

theorem C1_probe_body_counterexample:
  "body (d_w (serveStream api0 (mkRequest ''GET'' ''tr-1'' ''bytes=0-1'') liveStream newResponseWriter))
     \<noteq> take 2 (pending liveStream)
   \<and> body (d_w (deliverInline api0 (mkRequest ''GET'' ''tr-1'' ''bytes=0-1'') True liveStream newResponseWriter))
     \<noteq> take 2 (pending liveStream)"
proof -
  have ns: "\<not> Seekable liveStream" by (simp add: liveStream_def)
  have st: "status newResponseWriter = None" by (simp add: newResponseWriter_def)
  show ?thesis
    by (simp add: serveStream_probe deliverInline_probe ns rp1 strings_HasPrefix_def
          probe_fields[OF st]) (simp add: liveStream_def newResponseWriter_def)
qed


text \<open>
  C2, as stated, fails: after the probe answer the stream that held 1, 2, 3 has nothing
  pending, where the claim leaves the bytes after the first two unread.
\<close>

theorem C2_probe_leaves_remainder_counterexample:
  "pending (d_stream (serveStream api0 (mkRequest ''GET'' ''tr-1'' ''bytes=0-1'') liveStream newResponseWriter))
     \<noteq> drop 2 (pending liveStream)
   \<and> pending (d_stream (deliverInline api0 (mkRequest ''GET'' ''tr-1'' ''bytes=0-1'') True liveStream newResponseWriter))
     \<noteq> drop 2 (pending liveStream)"
proof -
  have ns: "\<not> Seekable liveStream" by (simp add: liveStream_def)
  have st: "status newResponseWriter = None" by (simp add: newResponseWriter_def)
  show ?thesis
    by (simp add: serveStream_probe deliverInline_probe ns rp1 strings_HasPrefix_def
          probe_fields[OF st]) (simp add: liveStream_def)
qed

text \<open>
  C2, amended. The probe path reads the stream to its end before it answers
  (\<^verbatim>\<open>io.ReadAll\<close>, "just wait transcode complete"): no byte is left pending, no
  goroutine is started, and the total in \<open>Content-Range\<close> is the number of bytes the
  stream held.
\<close>

theorem C2_probe_reads_whole_stream:
  assumes "\<not> Seekable stream"
    and "strings_HasPrefix (Header_Get r ''Range'') ''bytes=''"
    and "rangePositions (Header_Get r ''Range'') = Some (0, 1)"
    and "status w = None"
    and "d = serveStream api r stream w
         \<or> d = deliverInline api r (ParamBool r ''estimateContentLength'' False) stream w"
  shows "pending (d_stream d) = []
       \<and> d_tasks d = []
       \<and> respHeaders (d_w d) ''Content-Range''
            = Some (''bytes 0-1/'' @ Itoa (int (length (pending stream))))"
proof -
  from assms(1-3,5)
  have d: "d = \<lparr>d_w = fst (probeResponse stream w 0 1),
                d_stream = snd (probeResponse stream w 0 1), d_tasks = [], d_panic = False\<rparr>"
    by (auto simp: serveStream_probe deliverInline_probe)
  show ?thesis
    by (simp add: d probe_fields[OF assms(4)])
qed

theorem C2_probe_reads_whole_stream_witness:
  "\<not> Seekable liveStream
   \<and> strings_HasPrefix (Header_Get (mkRequest ''GET'' ''tr-1'' ''bytes=0-1'') ''Range'') ''bytes=''
   \<and> rangePositions (Header_Get (mkRequest ''GET'' ''tr-1'' ''bytes=0-1'') ''Range'') = Some (0, 1)
   \<and> status newResponseWriter = None
   \<and> pending liveStream = [1, 2, 3]
   \<and> pending (d_stream (deliverInline api0 (mkRequest ''GET'' ''tr-1'' ''bytes=0-1'')
        (ParamBool (mkRequest ''GET'' ''tr-1'' ''bytes=0-1'') ''estimateContentLength'' False)
        liveStream newResponseWriter)) = []
   \<and> respHeaders (d_w (deliverInline api0 (mkRequest ''GET'' ''tr-1'' ''bytes=0-1'')
        (ParamBool (mkRequest ''GET'' ''tr-1'' ''bytes=0-1'') ''estimateContentLength'' False)
        liveStream newResponseWriter)) ''Content-Range'' = Some ''bytes 0-1/3''"
proof -
  have h1: "\<not> Seekable liveStream"
    by (simp add: liveStream_def)
  have h2: "strings_HasPrefix (Header_Get (mkRequest ''GET'' ''tr-1'' ''bytes=0-1'') ''Range'')
              ''bytes=''"
    by (simp add: strings_HasPrefix_def)
  have h3: "rangePositions (Header_Get (mkRequest ''GET'' ''tr-1'' ''bytes=0-1'') ''Range'')
              = Some (0, 1)"
    by (simp add: rp1)
  have h4: "status newResponseWriter = None"
    by (simp add: newResponseWriter_def)
  have h5: "pending liveStream = [1, 2, 3]"
    by (simp add: liveStream_def)
  from C2_probe_reads_whole_stream[OF h1 h2 h3 h4 disjI2[OF refl], of api0] h1 h2 h3 h4 h5
  show ?thesis
    by simp
qed

subsection \<open>Splitting and parsing\<close>

lemma Split_nonempty: "strings_Split s sep \<noteq> []"
  by (induction s) (auto split: list.splits)

lemma Split_no_sep: "sep \<notin> set a \<Longrightarrow> strings_Split a sep = [a]"
  by (induction a) auto

lemma Split_append:
  "sep \<notin> set a \<Longrightarrow> strings_Split (a @ sep # rest) sep = a # strings_Split rest sep"
  by (induction a) auto

lemma rangePositions_total:
  assumes "strings_HasPrefix reqRange ''bytes=''"
  shows "\<exists>p. rangePositions reqRange = Some p"
proof -
  from assms have "take (length ''bytes='') reqRange = ''bytes=''"
    unfolding strings_HasPrefix_def .
  then have "reqRange = ''bytes='' @ drop (length ''bytes='') reqRange"
    by (metis append_take_drop_id)
  then obtain rest where r: "reqRange = ''bytes'' @ CHR ''='' # rest"
    by simp
  have s1: "strings_Split reqRange CHR ''='' = ''bytes'' # strings_Split rest CHR ''=''"
    unfolding r by (rule Split_append) simp
  obtain spec more where s2: "strings_Split rest CHR ''='' = spec # more"
    using Split_nonempty[of rest "CHR ''=''"] by (cases "strings_Split rest CHR ''=''") auto
  obtain b0 bs where s3: "strings_Split spec CHR ''-'' = b0 # bs"
    using Split_nonempty[of spec "CHR ''-''"] by (cases "strings_Split spec CHR ''-''") auto
  show ?thesis
    by (simp add: rangePositions_def s1 s2 s3 Let_def)
qed

lemma rangePositions_form:
  assumes "CHR ''='' \<notin> set a" "CHR ''-'' \<notin> set a" "CHR ''='' \<notin> set b" "CHR ''-'' \<notin> set b"
  shows "rangePositions (''bytes='' @ a @ ''-'' @ b)
           = Some (fst (Atoi a), if b = [] then 0 else fst (Atoi b))"
proof -
  have "strings_Split (''bytes'' @ CHR ''='' # (a @ ''-'' @ b)) CHR ''=''
          = ''bytes'' # strings_Split (a @ ''-'' @ b) CHR ''=''"
    by (rule Split_append) simp
  moreover have "strings_Split (a @ ''-'' @ b) CHR ''='' = [a @ ''-'' @ b]"
    using assms by (intro Split_no_sep) simp
  moreover have "strings_Split (a @ CHR ''-'' # b) CHR ''-'' = a # strings_Split b CHR ''-''"
    using assms by (intro Split_append) simp
  moreover have "strings_Split b CHR ''-'' = [b]"
    using assms by (intro Split_no_sep) simp
  ultimately show ?thesis
    by (simp add: rangePositions_def Let_def)
qed

lemma Atoi_loop_None:
  "(Atoi_loop n s = None) = (\<not> list_all (\<lambda>ch. digit_of ch \<noteq> None) s)"
proof (induction s arbitrary: n)
  case Nil
  show ?case by simp
next
  case (Cons ch s)
  show ?case
    by (cases "digit_of ch") (simp_all add: Cons.IH)
qed

lemma Atoi_malformed:
  assumes "length s < 19" and "\<not> isDecimal s"
  shows "Atoi s = (0, Some ErrSyntax)"
proof (cases s)
  case Nil
  then show ?thesis by (simp add: Atoi_def ParseInt_def)
next
  case (Cons c cs)
  define ds where "ds = (if c = CHR ''-'' \<or> c = CHR ''+'' then cs else s)"
  from assms(2) Cons have bad: "ds = [] \<or> \<not> list_all (\<lambda>ch. digit_of ch \<noteq> None) ds"
    by (auto simp: isDecimal_def ds_def Let_def)
  then have "ds = [] \<or> Atoi_loop 0 ds = None"
    by (simp add: Atoi_loop_None)
  moreover have "Atoi s = (if ds = [] then (0, Some ErrSyntax)
                    else (case Atoi_loop 0 ds of None \<Rightarrow> (0, Some ErrSyntax)
                          | Some n \<Rightarrow> (if c = CHR ''-'' then - n else n, None)))"
    using assms(1) Cons by (simp add: Atoi_def ds_def Let_def)
  ultimately show ?thesis by auto
qed


subsection \<open>The full answer\<close>

lemma fullResponse_fields:
  assumes "status w = None"
  shows "respHeaders (d_w (fullResponse r e stream w)) ''Accept-Ranges'' = Some ''none''"
    and "respHeaders (d_w (fullResponse r e stream w)) ''Content-Type'' = Some (ContentType stream)"
    and "respHeaders (d_w (fullResponse r e stream w)) ''Content-Length''
           = (if e then Some (Itoa (EstimatedContentLength stream)) else hdrs w ''Content-Length'')"
    and "respStatus (d_w (fullResponse r e stream w)) = 200"
    and "body (d_w (fullResponse r e stream w))
           = (if Method r = ''HEAD'' then body w else body w @ pending stream)"
  using assms
  by (simp_all add: fullResponse_def io_Copy_def writer_defs Let_def)

lemma fullResponse_head:
  assumes "Method r = ''HEAD''"
  shows "d_tasks (fullResponse r e stream w) = [DiscardCopy]"
    and "d_stream (fullResponse r e stream w) = stream"
    and "body (d_w (fullResponse r e stream w)) = body w"
    and "status (d_w (fullResponse r e stream w)) = status w"
    and "sentHdrs (d_w (fullResponse r e stream w)) = sentHdrs w"
    and "hdrs (d_w (fullResponse r e stream w)) ''Accept-Ranges'' = Some ''none''"
    and "hdrs (d_w (fullResponse r e stream w)) ''Content-Type'' = Some (ContentType stream)"
  using assms
  by (simp_all add: fullResponse_def Header_Set_def Let_def)

lemma serveStream_full:
  assumes "\<not> Seekable stream"
    and "\<not> strings_HasPrefix (Header_Get r ''Range'') ''bytes=''"
  shows "serveStream api r stream w
           = fullResponse r (ParamBool r ''estimateContentLength'' False) stream w"
  using assms by (simp add: serveStream_def Let_def)

lemma deliverInline_full:
  assumes "\<not> Seekable stream"
    and "\<not> (strings_HasPrefix (Header_Get r ''Range'') ''bytes=''
            \<and> rangePositions (Header_Get r ''Range'') = Some (0, 1))"
  shows "deliverInline api r e stream w = fullResponse r e stream w"
proof (cases "strings_HasPrefix (Header_Get r ''Range'') ''bytes=''")
  case False
  with assms(1) show ?thesis by (simp add: deliverInline_def Let_def)
next
  case True
  then obtain p where p: "rangePositions (Header_Get r ''Range'') = Some p"
    using rangePositions_total by blast
  with True assms(2) have "p \<noteq> (0, 1)" by auto
  with assms(1) p show ?thesis
    by (cases p) (auto simp: deliverInline_def Let_def)
qed

text \<open>
  The index expressions of lines 53-54 and 194-195 never leave their range: behind the
  test for the prefix \<open>bytes=\<close> the header holds a \<open>=\<close>, so the split has a second
  piece, and a split is never empty.
\<close>

theorem delivery_never_panics:
  "\<not> d_panic (serveStream api r stream w) \<and> \<not> d_panic (deliverInline api r e stream w)"
proof (cases "strings_HasPrefix (Header_Get r ''Range'') ''bytes=''")
  case False
  then show ?thesis
    by (simp add: serveStream_def deliverInline_def seekableResponse_def fullResponse_def
          Let_def case_prod_beta)
next
  case True
  then obtain p where "rangePositions (Header_Get r ''Range'') = Some p"
    using rangePositions_total by blast
  then show ?thesis
    by (cases p)
       (simp add: serveStream_def deliverInline_def seekableResponse_def fullResponse_def
          Let_def case_prod_beta)
qed

lemma serveStream_bytes_other:
  assumes "\<not> Seekable stream"
    and "strings_HasPrefix (Header_Get r ''Range'') ''bytes=''"
    and "rangePositions (Header_Get r ''Range'') = Some p" and "p \<noteq> (0, 1)"
  shows "serveStream api r stream w
           = \<lparr>d_w = w, d_stream = stream, d_tasks = [], d_panic = False\<rparr>"
proof -
  from assms(2) have "Header_Get r ''Range'' \<noteq> []"
    by (auto simp: strings_HasPrefix_def)
  with assms show ?thesis
    by (cases p) (auto simp: serveStream_def Let_def)
qed

text \<open>
  C3, as stated, fails: a header such as \<open>bytes=x-1\<close> is malformed, its start is read
  as 0, and the pair 0-1 is answered as a capability probe in both listings.
\<close>

theorem C3_malformed_probe_counterexample:
  "\<not> servedAsFull (mkRequest ''GET'' ''tr-1'' ''bytes=x-1'') liveStream newResponseWriter
        (serveStream api0 (mkRequest ''GET'' ''tr-1'' ''bytes=x-1'') liveStream newResponseWriter)
   \<and> \<not> servedAsFull (mkRequest ''GET'' ''tr-1'' ''bytes=x-1'') liveStream newResponseWriter
        (deliverInline api0 (mkRequest ''GET'' ''tr-1'' ''bytes=x-1'') True liveStream
           newResponseWriter)"
proof -
  have ns: "\<not> Seekable liveStream" by (simp add: liveStream_def)
  have st: "status newResponseWriter = None" by (simp add: newResponseWriter_def)
  show ?thesis
    by (simp add: servedAsFull_def serveStream_probe deliverInline_probe ns rp2
          strings_HasPrefix_def probe_fields[OF st])
qed

text \<open>
  C3, amended. On the non-seekable path a request whose Range header is absent or does
  not begin with \<open>bytes=\<close> is served as a full request: \<open>Accept-Ranges: none\<close>, the
  stream's content type, and the body copied unless the method is HEAD. In the first
  listing the same holds for every \<open>bytes=\<close> header that does not read as 0-1. In a
  header \<open>bytes=a-b\<close> a component of fewer than 19 bytes that is no decimal number
  (empty included) is read as 0.
\<close>

theorem C3_full_request:
  assumes "\<not> Seekable stream" and "status w = None"
  shows "(\<not> strings_HasPrefix (Header_Get r ''Range'') ''bytes='' \<longrightarrow>
            servedAsFull r stream w (serveStream api r stream w))
       \<and> (\<not> (strings_HasPrefix (Header_Get r ''Range'') ''bytes=''
               \<and> rangePositions (Header_Get r ''Range'') = Some (0, 1)) \<longrightarrow>
            servedAsFull r stream w (deliverInline api r e stream w))
       \<and> (\<forall>a b. CHR ''='' \<notin> set (a @ b) \<and> CHR ''-'' \<notin> set (a @ b)
                  \<and> length a < 19 \<and> length b < 19 \<longrightarrow>
            rangePositions (''bytes='' @ a @ ''-'' @ b)
              = Some (if isDecimal a then fst (Atoi a) else 0,
                      if isDecimal b then fst (Atoi b) else 0))"
proof (intro conjI impI allI)
  assume "\<not> strings_HasPrefix (Header_Get r ''Range'') ''bytes=''"
  then show "servedAsFull r stream w (serveStream api r stream w)"
    by (simp add: serveStream_full assms(1) servedAsFull_def fullResponse_fields[OF assms(2)])
next
  assume "\<not> (strings_HasPrefix (Header_Get r ''Range'') ''bytes=''
             \<and> rangePositions (Header_Get r ''Range'') = Some (0, 1))"
  then have "deliverInline api r e stream w = fullResponse r e stream w"
    by (rule deliverInline_full[OF assms(1)])
  then show "servedAsFull r stream w (deliverInline api r e stream w)"
    by (simp add: servedAsFull_def fullResponse_fields[OF assms(2)])
next
  fix a b :: string
  assume h: "CHR ''='' \<notin> set (a @ b) \<and> CHR ''-'' \<notin> set (a @ b)
               \<and> length a < 19 \<and> length b < 19"
  then have form: "rangePositions (''bytes='' @ a @ ''-'' @ b)
                     = Some (fst (Atoi a), if b = [] then 0 else fst (Atoi b))"
    by (intro rangePositions_form) auto
  have a0: "\<not> isDecimal a \<Longrightarrow> fst (Atoi a) = 0"
    using h by (simp add: Atoi_malformed)
  have b0: "\<not> isDecimal b \<Longrightarrow> fst (Atoi b) = 0"
    using h by (simp add: Atoi_malformed)
  have b1: "b = [] \<Longrightarrow> \<not> isDecimal b"
    by (simp add: isDecimal_def)
  show "rangePositions (''bytes='' @ a @ ''-'' @ b)
          = Some (if isDecimal a then fst (Atoi a) else 0,
                  if isDecimal b then fst (Atoi b) else 0)"
    unfolding form using a0 b0 b1 by auto
qed

theorem C3_full_request_witness:
  "\<not> Seekable liveStream \<and> status newResponseWriter = None
   \<and> \<not> strings_HasPrefix (Header_Get (mkRequest ''GET'' ''tr-1'' []) ''Range'') ''bytes=''
   \<and> servedAsFull (mkRequest ''GET'' ''tr-1'' []) liveStream newResponseWriter
        (serveStream api0 (mkRequest ''GET'' ''tr-1'' []) liveStream newResponseWriter)
   \<and> servedAsFull (mkRequest ''GET'' ''tr-1'' []) liveStream newResponseWriter
        (deliverInline api0 (mkRequest ''GET'' ''tr-1'' []) True liveStream newResponseWriter)
   \<and> \<not> isDecimal ''abc'' \<and> isDecimal ''7''
   \<and> rangePositions (''bytes='' @ ''abc'' @ ''-'' @ ''7'') = Some (0, 7)"
proof -
  have h1: "\<not> Seekable liveStream"
    by (simp add: liveStream_def)
  have h2: "status newResponseWriter = None"
    by (simp add: newResponseWriter_def)
  have h3: "\<not> strings_HasPrefix (Header_Get (mkRequest ''GET'' ''tr-1'' []) ''Range'') ''bytes=''"
    by (simp add: strings_HasPrefix_def)
  have h4: "\<not> isDecimal ''abc''" "isDecimal ''7''" "fst (Atoi ''7'') = 7"
    by (simp_all add: isDecimal_def Atoi_def digit_of_def)
  note inst = C3_full_request[OF h1 h2, of "mkRequest ''GET'' ''tr-1'' []" api0 True]
  from inst have a: "servedAsFull (mkRequest ''GET'' ''tr-1'' []) liveStream newResponseWriter
        (serveStream api0 (mkRequest ''GET'' ''tr-1'' []) liveStream newResponseWriter)"
    using h3 by blast
  from inst have b: "servedAsFull (mkRequest ''GET'' ''tr-1'' []) liveStream newResponseWriter
        (deliverInline api0 (mkRequest ''GET'' ''tr-1'' []) True liveStream newResponseWriter)"
    using h3 by blast
  have "rangePositions (''bytes='' @ ''abc'' @ ''-'' @ ''7'')
          = Some (if isDecimal ''abc'' then fst (Atoi ''abc'') else 0,
                  if isDecimal ''7'' then fst (Atoi ''7'') else 0)"
    using conjunct2[OF conjunct2[OF inst], rule_format, of "''abc''" "''7''"] by simp
  then have c: "rangePositions (''bytes='' @ ''abc'' @ ''-'' @ ''7'') = Some (0, 7)"
    using h4 by simp
  from h1 h2 h3 h4 a b c show ?thesis by simp
qed


subsection \<open>Content length\<close>

text \<open>
  C4, as stated, fails: a request with \<open>estimateContentLength=true\<close> and a Range header
  reading 0-1 on a non-seekable stream takes the probe branch, which sets no
  \<open>Content-Length\<close>.
\<close>

theorem C4_probe_without_length_counterexample:
  "ParamBool (mkRequest ''GET'' ''tr-1'' ''bytes=0-1'') ''estimateContentLength'' False
   \<and> \<not> Seekable liveStream
   \<and> respHeaders (d_w (serveStream api0 (mkRequest ''GET'' ''tr-1'' ''bytes=0-1'') liveStream
                          newResponseWriter)) ''Content-Length'' = None
   \<and> respHeaders (d_w (deliverInline api0 (mkRequest ''GET'' ''tr-1'' ''bytes=0-1'') True
                          liveStream newResponseWriter)) ''Content-Length'' = None"
proof -
  have ns: "\<not> Seekable liveStream" by (simp add: liveStream_def)
  have st: "status newResponseWriter = None" by (simp add: newResponseWriter_def)
  have pb: "ParamBool (mkRequest ''GET'' ''tr-1'' ''bytes=0-1'') ''estimateContentLength'' False"
    by (simp add: ParamBool_def mkRequest_def)
  show ?thesis
    by (simp add: pb serveStream_probe deliverInline_probe ns rp1 strings_HasPrefix_def
          probe_fields[OF st]) (simp add: newResponseWriter_def)
qed

text \<open>
  C4, amended. A seekable stream is handed to \<^verbatim>\<open>http.ServeContent\<close> and the adapter
  adds nothing of its own. For a non-seekable stream, on the full-request path (Range
  header absent or not beginning with \<open>bytes=\<close>; in the first listing every header
  that does not read as 0-1) the response carries \<open>Content-Length\<close> exactly when the
  request sets \<open>estimateContentLength=true\<close>, and its value is the stream's estimated
  content length in decimal; on the probe path no \<open>Content-Length\<close> is set.
\<close>

theorem C4_content_length:
  assumes "status w = None" and "hdrs w ''Content-Length'' = None"
  shows "(Seekable stream \<longrightarrow>
            d_w (serveStream api r stream w)
              = fst (ServeContent api r (Name stream) (ModTime stream) (pending stream) w))
       \<and> (\<not> Seekable stream
            \<and> \<not> strings_HasPrefix (Header_Get r ''Range'') ''bytes='' \<longrightarrow>
            respHeaders (d_w (serveStream api r stream w)) ''Content-Length''
              = (if ParamBool r ''estimateContentLength'' False
                 then Some (Itoa (EstimatedContentLength stream)) else None))
       \<and> (\<not> Seekable stream
            \<and> \<not> (strings_HasPrefix (Header_Get r ''Range'') ''bytes=''
                  \<and> rangePositions (Header_Get r ''Range'') = Some (0, 1)) \<longrightarrow>
            respHeaders (d_w (deliverInline api r (ParamBool r ''estimateContentLength'' False)
                                stream w)) ''Content-Length''
              = (if ParamBool r ''estimateContentLength'' False
                 then Some (Itoa (EstimatedContentLength stream)) else None))
       \<and> (\<not> Seekable stream
            \<and> strings_HasPrefix (Header_Get r ''Range'') ''bytes=''
            \<and> rangePositions (Header_Get r ''Range'') = Some (0, 1) \<longrightarrow>
            respHeaders (d_w (serveStream api r stream w)) ''Content-Length'' = None
            \<and> respHeaders (d_w (deliverInline api r (ParamBool r ''estimateContentLength'' False)
                                  stream w)) ''Content-Length'' = None)"
proof (intro conjI impI)
  assume "Seekable stream"
  then show "d_w (serveStream api r stream w)
               = fst (ServeContent api r (Name stream) (ModTime stream) (pending stream) w)"
    by (simp add: serveStream_def seekableResponse_def split: prod.splits)
next
  assume "\<not> Seekable stream \<and> \<not> strings_HasPrefix (Header_Get r ''Range'') ''bytes=''"
  then show "respHeaders (d_w (serveStream api r stream w)) ''Content-Length''
               = (if ParamBool r ''estimateContentLength'' False
                  then Some (Itoa (EstimatedContentLength stream)) else None)"
    by (simp add: serveStream_full fullResponse_fields[OF assms(1)] assms(2))
next
  assume h: "\<not> Seekable stream
             \<and> \<not> (strings_HasPrefix (Header_Get r ''Range'') ''bytes=''
                   \<and> rangePositions (Header_Get r ''Range'') = Some (0, 1))"
  then have "deliverInline api r (ParamBool r ''estimateContentLength'' False) stream w
               = fullResponse r (ParamBool r ''estimateContentLength'' False) stream w"
    by (intro deliverInline_full) simp_all
  then show "respHeaders (d_w (deliverInline api r (ParamBool r ''estimateContentLength'' False)
                                stream w)) ''Content-Length''
               = (if ParamBool r ''estimateContentLength'' False
                  then Some (Itoa (EstimatedContentLength stream)) else None)"
    by (simp add: fullResponse_fields[OF assms(1)] assms(2))
next
  assume h: "\<not> Seekable stream
             \<and> strings_HasPrefix (Header_Get r ''Range'') ''bytes=''
             \<and> rangePositions (Header_Get r ''Range'') = Some (0, 1)"
  then show "respHeaders (d_w (serveStream api r stream w)) ''Content-Length'' = None"
    by (simp add: serveStream_probe probe_fields[OF assms(1)] assms(2))
  from h show "respHeaders (d_w (deliverInline api r (ParamBool r ''estimateContentLength'' False)
                                  stream w)) ''Content-Length'' = None"
    by (simp add: deliverInline_probe probe_fields[OF assms(1)] assms(2))
qed

theorem C4_content_length_witness:
  "status newResponseWriter = None \<and> hdrs newResponseWriter ''Content-Length'' = None
   \<and> \<not> Seekable liveStream
   \<and> \<not> strings_HasPrefix (Header_Get (mkRequest ''GET'' ''tr-1'' []) ''Range'') ''bytes=''
   \<and> ParamBool (mkRequest ''GET'' ''tr-1'' []) ''estimateContentLength'' False
   \<and> respHeaders (d_w (serveStream api0 (mkRequest ''GET'' ''tr-1'' []) liveStream
                          newResponseWriter)) ''Content-Length'' = Some ''4096''"
proof -
  have h1: "status newResponseWriter = None" "hdrs newResponseWriter ''Content-Length'' = None"
    by (simp_all add: newResponseWriter_def)
  have h2: "\<not> Seekable liveStream" "EstimatedContentLength liveStream = 4096"
    by (simp_all add: liveStream_def)
  have h3: "\<not> strings_HasPrefix (Header_Get (mkRequest ''GET'' ''tr-1'' []) ''Range'') ''bytes=''"
    by (simp add: strings_HasPrefix_def)
  have h4: "ParamBool (mkRequest ''GET'' ''tr-1'' []) ''estimateContentLength'' False"
    by (simp add: ParamBool_def mkRequest_def)
  have h5: "Itoa 4096 = ''4096''"
    by (simp add: Itoa_def digits.simps)
  from C4_content_length[OF h1, of liveStream api0 "mkRequest ''GET'' ''tr-1'' []"] h1 h2 h3 h4 h5
  show ?thesis
    by simp
qed

subsection \<open>HEAD requests\<close>

text \<open>
  A HEAD request whose Range header reads 0-1 takes the probe branch, which comes before
  the test of the method: the stream is read to its end at once, no goroutine is
  started, and two bytes are handed to \<^verbatim>\<open>Write\<close>.
\<close>

lemma head_probe_starts_no_task:
  "Method (mkRequest ''HEAD'' ''tr-1'' ''bytes=0-1'') = ''HEAD'' \<and> \<not> Seekable liveStream
   \<and> d_tasks (serveStream api0 (mkRequest ''HEAD'' ''tr-1'' ''bytes=0-1'') liveStream
                 newResponseWriter) = []
   \<and> body (d_w (serveStream api0 (mkRequest ''HEAD'' ''tr-1'' ''bytes=0-1'') liveStream
                   newResponseWriter)) = [0, 0]
   \<and> d_tasks (deliverInline api0 (mkRequest ''HEAD'' ''tr-1'' ''bytes=0-1'') True liveStream
                 newResponseWriter) = []
   \<and> body (d_w (deliverInline api0 (mkRequest ''HEAD'' ''tr-1'' ''bytes=0-1'') True liveStream
                   newResponseWriter)) = [0, 0]"
proof -
  have ns: "\<not> Seekable liveStream" by (simp add: liveStream_def)
  have st: "status newResponseWriter = None" by (simp add: newResponseWriter_def)
  have m: "Method (mkRequest ''HEAD'' ''tr-1'' ''bytes=0-1'') = ''HEAD''"
    by (simp add: mkRequest_def)
  show ?thesis
    by (simp add: m serveStream_probe deliverInline_probe ns rp1 strings_HasPrefix_def
          probe_fields[OF st]) (simp add: newResponseWriter_def)
qed

text \<open>
  On the full-request path a HEAD request gets its headers and no body byte; delivery
  reads nothing from the stream and starts one goroutine.
\<close>

lemma head_full_request:
  assumes "\<not> Seekable stream" and "Method r = ''HEAD''"
    and "d = serveStream api r stream w
           \<and> \<not> strings_HasPrefix (Header_Get r ''Range'') ''bytes=''
         \<or> d = deliverInline api r (ParamBool r ''estimateContentLength'' False) stream w
           \<and> \<not> (strings_HasPrefix (Header_Get r ''Range'') ''bytes=''
                 \<and> rangePositions (Header_Get r ''Range'') = Some (0, 1))"
  shows "body (d_w d) = body w
       \<and> status (d_w d) = status w
       \<and> hdrs (d_w d) ''Accept-Ranges'' = Some ''none''
       \<and> hdrs (d_w d) ''Content-Type'' = Some (ContentType stream)
       \<and> d_stream d = stream
       \<and> d_tasks d = [DiscardCopy]"
proof -
  from assms(3) have "d = fullResponse r (ParamBool r ''estimateContentLength'' False) stream w"
  proof
    assume "d = serveStream api r stream w
              \<and> \<not> strings_HasPrefix (Header_Get r ''Range'') ''bytes=''"
    then show ?thesis by (simp add: serveStream_full assms(1))
  next
    assume "d = deliverInline api r (ParamBool r ''estimateContentLength'' False) stream w
              \<and> \<not> (strings_HasPrefix (Header_Get r ''Range'') ''bytes=''
                    \<and> rangePositions (Header_Get r ''Range'') = Some (0, 1))"
    then show ?thesis using deliverInline_full[OF assms(1)] by simp
  qed
  then show ?thesis
    by (simp add: fullResponse_head[OF assms(2)])
qed

section \<open>The handlers\<close>

subsection \<open>Closing the stream\<close>

text \<open>
  Once \<^verbatim>\<open>NewStream\<close> has succeeded, \<^verbatim>\<open>Stream\<close> of either listing returns the stream
  closed: the deferred \<^verbatim>\<open>Close\<close> (lines 35-39, 266-270) runs on every path of the
  delivery.
\<close>

theorem Stream_closes_stream:
  assumes "requiredParamString r ''id'' = Inr ident"
    and "NewStream api ident (ParamString r ''format'') (ParamInt r ''maxBitRate'' 0) = Inr stream"
    and "out = Stream1 api r w \<or> out = Stream2 api r w"
  shows "map_option closed (strm out) = Some True"
  using assms by (auto simp: Stream1_def Stream2_def Close_def Let_def)

theorem Stream_closes_stream_witness:
  "requiredParamString (mkRequest ''HEAD'' ''tr-1'' ''bytes=5-10'') ''id'' = Inr ''tr-1''
   \<and> NewStream api0 ''tr-1'' (ParamString (mkRequest ''HEAD'' ''tr-1'' ''bytes=5-10'') ''format'')
        (ParamInt (mkRequest ''HEAD'' ''tr-1'' ''bytes=5-10'') ''maxBitRate'' 0) = Inr liveStream
   \<and> \<not> closed liveStream
   \<and> map_option closed (strm (Stream2 api0 (mkRequest ''HEAD'' ''tr-1'' ''bytes=5-10'')
                                newResponseWriter)) = Some True"
proof -
  have h1: "requiredParamString (mkRequest ''HEAD'' ''tr-1'' ''bytes=5-10'') ''id'' = Inr ''tr-1''"
    by (simp add: requiredParamString_def ParamString_def mkRequest_def)
  have h2: "NewStream api0 ''tr-1'' (ParamString (mkRequest ''HEAD'' ''tr-1'' ''bytes=5-10'') ''format'')
        (ParamInt (mkRequest ''HEAD'' ''tr-1'' ''bytes=5-10'') ''maxBitRate'' 0) = Inr liveStream"
    by (simp add: api0_def)
  have h3: "\<not> closed liveStream"
    by (simp add: liveStream_def)
  from Stream_closes_stream[OF h1 h2 disjI2[OF refl], of newResponseWriter] h1 h2 h3
  show ?thesis
    by simp
qed

lemma serveStream_closed: "closed (d_stream (serveStream api r stream w)) = closed stream"
  by (auto simp: serveStream_def seekableResponse_def probeResponse_def io_ReadAll_def
        fullResponse_def io_Copy_def Let_def split: prod.splits option.splits)

lemma Download_leaves_stream_open:
  assumes "EnableDownloads cfg"
    and "requiredParamString r ''id'' = Inr ident"
    and "GetEntityByID api ident = Inr MediaFile"
    and "NewStream api ident (fst (downloadFormat cfg r)) (snd (downloadFormat cfg r)) = Inr stream"
  shows "map_option closed (strm (Download2 cfg api r w)) = Some (closed stream)"
  using assms
  by (simp add: Download2_def Let_def case_prod_beta serveStream_closed)

text \<open>
  C5: the claim holds for \<^verbatim>\<open>Stream\<close>, whose deferred \<^verbatim>\<open>Close\<close> runs on every return,
  and fails for \<^verbatim>\<open>Download\<close>: in the media-file case of both listings the handler
  returns without any call of \<^verbatim>\<open>Close\<close>. For a download of the track \<open>tr-1\<close> with
  downloads enabled the stream is still open on return, while \<^verbatim>\<open>Stream\<close> on the same
  request returns it closed.
\<close>

theorem C5_download_returns_open_stream:
  "result (Download2 cfgOn api0 (mkRequest ''GET'' ''tr-1'' []) newResponseWriter) = None
   \<and> map_option closed (strm (Download2 cfgOn api0 (mkRequest ''GET'' ''tr-1'' [])
                                newResponseWriter)) = Some False
   \<and> result (Download1 cfgOn api0 (mkRequest ''GET'' ''tr-1'' []) newResponseWriter) = None
   \<and> map_option closed (strm (Download1 cfgOn api0 (mkRequest ''GET'' ''tr-1'' [])
                                newResponseWriter)) = Some False
   \<and> map_option closed (strm (Stream2 api0 (mkRequest ''GET'' ''tr-1'' [])
                                newResponseWriter)) = Some True
   \<and> map_option closed (strm (Stream1 api0 (mkRequest ''GET'' ''tr-1'' [])
                                newResponseWriter)) = Some True"
proof -
  have rq: "requiredParamString (mkRequest ''GET'' ''tr-1'' []) ''id'' = Inr ''tr-1''"
    by (simp add: requiredParamString_def ParamString_def mkRequest_def)
  have d2: "map_option closed (strm (Download2 cfgOn api0 (mkRequest ''GET'' ''tr-1'' [])
                                       newResponseWriter)) = Some False"
    by (simp add: Download_leaves_stream_open[where ident = "''tr-1''" and stream = liveStream] rq
          cfgOn_def api0_def) (simp add: liveStream_def)
  have r2: "result (Download2 cfgOn api0 (mkRequest ''GET'' ''tr-1'' []) newResponseWriter) = None"
    by (simp add: Download2_def rq cfgOn_def api0_def Let_def case_prod_beta)
  have d1: "result (Download1 cfgOn api0 (mkRequest ''GET'' ''tr-1'' []) newResponseWriter) = None
     \<and> map_option closed (strm (Download1 cfgOn api0 (mkRequest ''GET'' ''tr-1'' [])
                                newResponseWriter)) = Some False"
    by (simp add: Download1_def rq cfgOn_def api0_def Let_def seekableResponse_def liveStream_def
          split: prod.splits)
  have s: "map_option closed (strm (Stream2 api0 (mkRequest ''GET'' ''tr-1'' [])
                                newResponseWriter)) = Some True
         \<and> map_option closed (strm (Stream1 api0 (mkRequest ''GET'' ''tr-1'' [])
                                newResponseWriter)) = Some True"
    by (simp add: Stream1_def Stream2_def rq api0_def Let_def Close_def)
  from d2 r2 d1 s show ?thesis by simp
qed

subsection \<open>The background drain of a HEAD request\<close>

text \<open>
  For a HEAD request on the full-request path, \<^verbatim>\<open>Stream\<close> of either listing starts
  the goroutine and returns with the stream closed and not a byte of it read; the
  goroutine, run after the return, finds the stream closed and reads nothing.
\<close>

lemma Stream_head_closes_unread_stream:
  assumes "requiredParamString r ''id'' = Inr ident"
    and "NewStream api ident (ParamString r ''format'') (ParamInt r ''maxBitRate'' 0) = Inr stream"
    and "\<not> Seekable stream" and "Method r = ''HEAD''"
    and "\<not> strings_HasPrefix (Header_Get r ''Range'') ''bytes=''"
    and "out = Stream1 api r w \<or> out = Stream2 api r w"
  shows "tasks out = [DiscardCopy]
       \<and> strm out = Some (stream\<lparr>closed := True\<rparr>)
       \<and> settled out = Some (stream\<lparr>closed := True\<rparr>)
       \<and> body (resp out) = body w"
proof -
  have one: "deliverInline api r (ParamBool r ''estimateContentLength'' False) stream w'
               = fullResponse r (ParamBool r ''estimateContentLength'' False) stream w'" for w'
    using assms(3,5) by (intro deliverInline_full) simp_all
  have two: "serveStream api r stream w'
               = fullResponse r (ParamBool r ''estimateContentLength'' False) stream w'" for w'
    using assms(3,5) by (simp add: serveStream_full)
  from assms(6) show ?thesis
  proof
    assume "out = Stream1 api r w"
    then show ?thesis
      using assms(1,2)
      by (simp add: Stream1_def Let_def one fullResponse_head[OF assms(4)] Close_def
            settled_def runTask_def io_Copy_Discard_def Header_Set_def)
  next
    assume "out = Stream2 api r w"
    then show ?thesis
      using assms(1,2)
      by (simp add: Stream2_def Let_def two fullResponse_head[OF assms(4)] Close_def
            settled_def runTask_def io_Copy_Discard_def Header_Set_def)
  qed
qed

text \<open>
  Whatever the schedule: if the goroutine has read \<open>k\<close> bytes of the open stream when
  the deferred \<^verbatim>\<open>Close\<close> runs, the bytes after the first \<open>k\<close> are never read. The
  stream is drained in full only if the goroutine reads all of it before the handler,
  which does not wait, has returned.
\<close>

lemma drain_stops_at_Close:
  assumes "\<not> closed s"
  shows "pending (runTask DiscardCopy (Close (readBytes k s))) = drop k (pending s)"
  using assms by (simp add: runTask_def io_Copy_Discard_def Close_def readBytes_def)

text \<open>
  C7: the claim fails on the code. A HEAD request for the track \<open>tr-1\<close> without a Range
  header, on a non-seekable stream that yields 1, 2, 3: both listings of \<^verbatim>\<open>Stream\<close>
  hand no body byte to the response and start the goroutine that is to drain the
  stream (lines 95, 236), but they return at once and the deferred \<^verbatim>\<open>Close\<close>
  (lines 35-39, 266-270) closes the stream with all three bytes unread. The goroutine is
  left with a closed stream: the bytes stay unread, where the claim has the stream
  drained in full.
\<close>

theorem C7_head_stream_closed_before_drain:
  "tasks (Stream2 api0 (mkRequest ''HEAD'' ''tr-1'' []) newResponseWriter) = [DiscardCopy]
   \<and> body (resp (Stream2 api0 (mkRequest ''HEAD'' ''tr-1'' []) newResponseWriter)) = []
   \<and> map_option closed (strm (Stream2 api0 (mkRequest ''HEAD'' ''tr-1'' []) newResponseWriter))
       = Some True
   \<and> map_option pending (strm (Stream2 api0 (mkRequest ''HEAD'' ''tr-1'' []) newResponseWriter))
       = Some [1, 2, 3]
   \<and> map_option pending (settled (Stream2 api0 (mkRequest ''HEAD'' ''tr-1'' [])
                                    newResponseWriter)) = Some [1, 2, 3]
   \<and> tasks (Stream1 api0 (mkRequest ''HEAD'' ''tr-1'' []) newResponseWriter) = [DiscardCopy]
   \<and> map_option closed (strm (Stream1 api0 (mkRequest ''HEAD'' ''tr-1'' []) newResponseWriter))
       = Some True
   \<and> map_option pending (settled (Stream1 api0 (mkRequest ''HEAD'' ''tr-1'' [])
                                    newResponseWriter)) = Some [1, 2, 3]"
proof -
  have h1: "requiredParamString (mkRequest ''HEAD'' ''tr-1'' []) ''id'' = Inr ''tr-1''"
    by (simp add: requiredParamString_def ParamString_def mkRequest_def)
  have h2: "NewStream api0 ''tr-1'' (ParamString (mkRequest ''HEAD'' ''tr-1'' []) ''format'')
              (ParamInt (mkRequest ''HEAD'' ''tr-1'' []) ''maxBitRate'' 0) = Inr liveStream"
    by (simp add: api0_def)
  have h3: "\<not> Seekable liveStream"
    by (simp add: liveStream_def)
  have h4: "Method (mkRequest ''HEAD'' ''tr-1'' []) = ''HEAD''"
    by (simp add: mkRequest_def)
  have h5: "\<not> strings_HasPrefix (Header_Get (mkRequest ''HEAD'' ''tr-1'' []) ''Range'') ''bytes=''"
    by (simp add: strings_HasPrefix_def)
  note two = Stream_head_closes_unread_stream[OF h1 h2 h3 h4 h5 disjI2[OF refl],
               of newResponseWriter]
  note one = Stream_head_closes_unread_stream[OF h1 h2 h3 h4 h5 disjI1[OF refl],
               of newResponseWriter]
  from one two show ?thesis
    by (simp add: liveStream_def newResponseWriter_def)
qed

subsection \<open>Downloads disabled\<close>

text \<open>
  C6, as stated, fails: the check for the required \<open>id\<close> comes first (lines 114-117 and
  283-286), so a request without it gets the missing-parameter error even when downloads
  are disabled.
\<close>

theorem C6_missing_id_counterexample:
  "\<not> EnableDownloads cfgOff
   \<and> result (Download2 cfgOff api0 (mkRequest ''GET'' [] []) newResponseWriter)
       = Some (SubsonicError ErrorMissingParameter ''id'')
   \<and> result (Download2 cfgOff api0 (mkRequest ''GET'' [] []) newResponseWriter)
       \<noteq> Some (SubsonicError ErrorAuthorizationFail ''downloads are disabled'')
   \<and> result (Download1 cfgOff api0 (mkRequest ''GET'' [] []) newResponseWriter)
       = Some (SubsonicError ErrorMissingParameter ''id'')"
  by (simp add: Download1_def Download2_def requiredParamString_def ParamString_def
        mkRequest_def cfgOff_def)

text \<open>
  C6, amended. For every request that carries the required \<open>id\<close>, when
  \<open>EnableDownloads\<close> is false both \<^verbatim>\<open>Download\<close> handlers return the
  authorization-failure error, whatever the id names: no collaborator is called (no
  entity lookup, no stream, no archiver) and the response writer is left untouched.
\<close>

theorem C6_downloads_disabled:
  assumes "\<not> EnableDownloads cfg"
    and "requiredParamString r ''id'' = Inr ident"
    and "out = Download1 cfg api r w \<or> out = Download2 cfg api r w"
  shows "result out = Some (SubsonicError ErrorAuthorizationFail ''downloads are disabled'')
       \<and> calls out = []
       \<and> resp out = w
       \<and> strm out = None
       \<and> tasks out = []"
  using assms by (auto simp: Download1_def Download2_def)

theorem C6_downloads_disabled_witness:
  "\<not> EnableDownloads cfgOff
   \<and> requiredParamString (mkRequest ''GET'' ''al-1'' []) ''id'' = Inr ''al-1''
   \<and> GetEntityByID api0 ''al-1'' = Inr (Album ''Hits, Vol. 1'')
   \<and> result (Download2 cfgOff api0 (mkRequest ''GET'' ''al-1'' []) newResponseWriter)
       = Some (SubsonicError ErrorAuthorizationFail ''downloads are disabled'')
   \<and> calls (Download2 cfgOff api0 (mkRequest ''GET'' ''al-1'' []) newResponseWriter) = []
   \<and> resp (Download2 cfgOff api0 (mkRequest ''GET'' ''al-1'' []) newResponseWriter)
       = newResponseWriter"
proof -
  have h1: "\<not> EnableDownloads cfgOff"
    by (simp add: cfgOff_def)
  have h2: "requiredParamString (mkRequest ''GET'' ''al-1'' []) ''id'' = Inr ''al-1''"
    by (simp add: requiredParamString_def ParamString_def mkRequest_def)
  have h3: "GetEntityByID api0 ''al-1'' = Inr (Album ''Hits, Vol. 1'')"
    by (simp add: api0_def)
  from C6_downloads_disabled[OF h1 h2 disjI2[OF refl], of api0 newResponseWriter] h1 h2 h3
  show ?thesis
    by simp
qed


subsection \<open>The format of a download\<close>





subsection \<open>The archive's file name\<close>

lemma respHeaders_Write: "respHeaders (Write w bs) = respHeaders w"
  by (cases "status w") (simp_all add: writer_defs Let_def)

lemma respHeaders_foldl_Write: "respHeaders (foldl Write w chunks) = respHeaders w"
  by (induction chunks arbitrary: w) (simp_all add: respHeaders_Write)

lemma ReplaceAll_removes: "old \<noteq> new \<Longrightarrow> old \<notin> set (strings_ReplaceAll s old new)"
  by (auto simp: strings_ReplaceAll_def)

lemma zipTo_disposition:
  assumes "status w = None"
  shows "respHeaders (fst (zipTo api c name w)) ''Content-Disposition''
           = Some (''attachment; filename='' @ [dquote]
                     @ strings_ReplaceAll name CHR '','' CHR ''_'' @ ''.zip'' @ [dquote])"
  using assms
  by (simp add: zipTo_def setHeaders_def Let_def case_prod_beta respHeaders_foldl_Write)
     (simp add: respHeaders_def Header_Set_def)

text \<open>
  C9. For a download of an album, an artist or a playlist, both listings send
  \<open>Content-Disposition: attachment; filename="N.zip"\<close> where N is the collection's name
  with every comma replaced by an underscore; the file name holds no comma.
\<close>

theorem C9_archive_filename_has_no_comma:
  assumes "EnableDownloads cfg"
    and "requiredParamString r ''id'' = Inr ident"
    and "GetEntityByID api ident = Inr entity"
    and "entity = Album name \<or> entity = Artist name \<or> entity = Playlist name"
    and "status w = None"
    and "out = Download1 cfg api r w \<or> out = Download2 cfg api r w"
  shows "respHeaders (resp out) ''Content-Disposition''
           = Some (''attachment; filename='' @ [dquote]
                     @ strings_ReplaceAll name CHR '','' CHR ''_'' @ ''.zip'' @ [dquote])
       \<and> CHR '','' \<notin> set (strings_ReplaceAll name CHR '','' CHR ''_'' @ ''.zip'')"
proof -
  have "\<exists>c. resp out = fst (zipTo api c name w)"
    using assms(1-4,6)
    by (auto simp: Download1_def Download2_def Let_def case_prod_beta)
  then obtain c where "resp out = fst (zipTo api c name w)" ..
  then have "respHeaders (resp out) ''Content-Disposition''
           = Some (''attachment; filename='' @ [dquote]
                     @ strings_ReplaceAll name CHR '','' CHR ''_'' @ ''.zip'' @ [dquote])"
    by (simp add: zipTo_disposition[OF assms(5)])
  moreover have "CHR '','' \<notin> set (strings_ReplaceAll name CHR '','' CHR ''_'' @ ''.zip'')"
    using ReplaceAll_removes[of "CHR '',''" "CHR ''_''" name] by simp
  ultimately show ?thesis by simp
qed

theorem C9_archive_filename_has_no_comma_witness:
  "EnableDownloads cfgOn
   \<and> requiredParamString (mkRequest ''GET'' ''al-1'' []) ''id'' = Inr ''al-1''
   \<and> GetEntityByID api0 ''al-1'' = Inr (Album ''Hits, Vol. 1'')
   \<and> status newResponseWriter = None
   \<and> respHeaders (resp (Download2 cfgOn api0 (mkRequest ''GET'' ''al-1'' []) newResponseWriter))
        ''Content-Disposition''
       = Some (''attachment; filename='' @ [dquote] @ ''Hits_ Vol. 1.zip'' @ [dquote])"
proof -
  have h1: "EnableDownloads cfgOn"
    by (simp add: cfgOn_def)
  have h2: "requiredParamString (mkRequest ''GET'' ''al-1'' []) ''id'' = Inr ''al-1''"
    by (simp add: requiredParamString_def ParamString_def mkRequest_def)
  have h3: "GetEntityByID api0 ''al-1'' = Inr (Album ''Hits, Vol. 1'')"
    by (simp add: api0_def)
  have h4: "status newResponseWriter = None"
    by (simp add: newResponseWriter_def)
  have h5: "strings_ReplaceAll ''Hits, Vol. 1'' CHR '','' CHR ''_'' = ''Hits_ Vol. 1''"
    by (simp add: strings_ReplaceAll_def)
  from C9_archive_filename_has_no_comma[OF h1 h2 h3 disjI1[OF refl] h4 disjI2[OF refl]]
    h1 h2 h3 h4 h5
  show ?thesis
    by simp
qed

subsection \<open>The two listings\<close>

lemma listings_agree:
  assumes "Seekable stream
           \<or> \<not> strings_HasPrefix (Header_Get r ''Range'') ''bytes=''
           \<or> rangePositions (Header_Get r ''Range'') = Some (0, 1)"
  shows "deliverInline api r (ParamBool r ''estimateContentLength'' False) stream w
           = serveStream api r stream w"
proof (cases "Seekable stream")
  case True
  then show ?thesis by (simp add: deliverInline_def serveStream_def)
next
  case ns: False
  show ?thesis
  proof (cases "strings_HasPrefix (Header_Get r ''Range'') ''bytes=''")
    case False
    with ns show ?thesis by (simp add: serveStream_full deliverInline_full)
  next
    case True
    with assms ns have "rangePositions (Header_Get r ''Range'') = Some (0, 1)" by simp
    with ns True show ?thesis by (simp add: serveStream_probe deliverInline_probe)
  qed
qed

text \<open>
  Apart from a \<open>bytes=\<close> header that does not read as 0-1, \<^verbatim>\<open>Stream\<close> of the first
  listing and \<^verbatim>\<open>Stream\<close> of the second do the same: the same result, response, stream,
  goroutines and collaborator calls.
\<close>

theorem Stream_listings_agree:
  assumes "\<not> strings_HasPrefix (Header_Get r ''Range'') ''bytes=''
           \<or> rangePositions (Header_Get r ''Range'') = Some (0, 1)"
  shows "Stream1 api r w = Stream2 api r w"
  using assms
  by (auto simp: Stream1_def Stream2_def Let_def listings_agree split: sum.splits)

theorem Stream_listings_agree_witness:
  "rangePositions (Header_Get (mkRequest ''GET'' ''tr-1'' ''bytes=0-1'') ''Range'') = Some (0, 1)
   \<and> Stream1 api0 (mkRequest ''GET'' ''tr-1'' ''bytes=0-1'') newResponseWriter
       = Stream2 api0 (mkRequest ''GET'' ''tr-1'' ''bytes=0-1'') newResponseWriter
   \<and> result (Stream2 api0 (mkRequest ''GET'' ''tr-1'' ''bytes=0-1'') newResponseWriter) = None"
proof -
  have h1: "rangePositions (Header_Get (mkRequest ''GET'' ''tr-1'' ''bytes=0-1'') ''Range'')
              = Some (0, 1)"
    by (simp add: rp1)
  have h2: "result (Stream2 api0 (mkRequest ''GET'' ''tr-1'' ''bytes=0-1'') newResponseWriter) = None"
    by (simp add: Stream2_def requiredParamString_def ParamString_def mkRequest_def api0_def
          Let_def)
  from Stream_listings_agree[OF disjI2[OF h1], of api0 newResponseWriter] h1 h2
  show ?thesis
    by simp
qed

text \<open>
  C10: the listings differ. For a GET request on a non-seekable stream with
  \<open>Range: bytes=5-10\<close> the inline delivery of the first listing falls through to the
  full answer (\<open>Accept-Ranges: none\<close>, the stream's content type, the whole body), while
  \<^verbatim>\<open>serveStream\<close>, whose full answer is the \<^verbatim>\<open>else\<close> of the test for \<open>bytes=\<close>, sets
  neither header, writes nothing and leaves the stream unread.
\<close>

theorem C10_listings_differ:
  "respHeaders (resp (Stream1 api0 (mkRequest ''GET'' ''tr-1'' ''bytes=5-10'') newResponseWriter))
     ''Accept-Ranges'' = Some ''none''
   \<and> respHeaders (resp (Stream1 api0 (mkRequest ''GET'' ''tr-1'' ''bytes=5-10'') newResponseWriter))
     ''Content-Type'' = Some ''audio/mpeg''
   \<and> body (resp (Stream1 api0 (mkRequest ''GET'' ''tr-1'' ''bytes=5-10'') newResponseWriter))
     = [1, 2, 3]
   \<and> respHeaders (resp (Stream2 api0 (mkRequest ''GET'' ''tr-1'' ''bytes=5-10'') newResponseWriter))
     ''Accept-Ranges'' = None
   \<and> respHeaders (resp (Stream2 api0 (mkRequest ''GET'' ''tr-1'' ''bytes=5-10'') newResponseWriter))
     ''Content-Type'' = None
   \<and> body (resp (Stream2 api0 (mkRequest ''GET'' ''tr-1'' ''bytes=5-10'') newResponseWriter))
     = []
   \<and> map_option pending (strm (Stream2 api0 (mkRequest ''GET'' ''tr-1'' ''bytes=5-10'')
                                  newResponseWriter)) = Some [1, 2, 3]"
proof -
  have rq: "requiredParamString (mkRequest ''GET'' ''tr-1'' ''bytes=5-10'') ''id'' = Inr ''tr-1''"
    by (simp add: requiredParamString_def ParamString_def mkRequest_def)
  have ns: "\<not> Seekable liveStream" by (simp add: liveStream_def)
  have pre: "strings_HasPrefix (Header_Get (mkRequest ''GET'' ''tr-1'' ''bytes=5-10'') ''Range'')
               ''bytes=''"
    by (simp add: strings_HasPrefix_def)
  have rp: "rangePositions (Header_Get (mkRequest ''GET'' ''tr-1'' ''bytes=5-10'') ''Range'')
              = Some (5, 10)"
    by (simp add: rp4)
  have m: "Method (mkRequest ''GET'' ''tr-1'' ''bytes=5-10'') \<noteq> ''HEAD''"
    by (simp add: mkRequest_def)
  have one: "Stream1 api0 (mkRequest ''GET'' ''tr-1'' ''bytes=5-10'') newResponseWriter
      = (let w2 = Header_Set (Header_Set newResponseWriter ''X-Content-Type-Options'' ''nosniff'')
                    ''X-Content-Duration'' (Duration liveStream);
             d = fullResponse (mkRequest ''GET'' ''tr-1'' ''bytes=5-10'')
                   (ParamBool (mkRequest ''GET'' ''tr-1'' ''bytes=5-10'')
                      ''estimateContentLength'' False) liveStream w2
         in \<lparr>result = None, resp = d_w d, strm = Some (Close (d_stream d)), tasks = d_tasks d,
             calls = [CallNewStream ''tr-1''
                        (ParamString (mkRequest ''GET'' ''tr-1'' ''bytes=5-10'') ''format'')
                        (ParamInt (mkRequest ''GET'' ''tr-1'' ''bytes=5-10'') ''maxBitRate'' 0)],
             panicked = d_panic d\<rparr>)"
    using deliverInline_full[OF ns, of "mkRequest ''GET'' ''tr-1'' ''bytes=5-10''"] rp
    by (simp add: Stream1_def rq api0_def Let_def)
  have two: "Stream2 api0 (mkRequest ''GET'' ''tr-1'' ''bytes=5-10'') newResponseWriter
      = (let w2 = Header_Set (Header_Set newResponseWriter ''X-Content-Type-Options'' ''nosniff'')
                    ''X-Content-Duration'' (Duration liveStream)
         in \<lparr>result = None, resp = w2, strm = Some (Close liveStream), tasks = [],
             calls = [CallNewStream ''tr-1''
                        (ParamString (mkRequest ''GET'' ''tr-1'' ''bytes=5-10'') ''format'')
                        (ParamInt (mkRequest ''GET'' ''tr-1'' ''bytes=5-10'') ''maxBitRate'' 0)],
             panicked = False\<rparr>)"
    using serveStream_bytes_other[OF ns pre rp]
    by (simp add: Stream2_def rq api0_def Let_def)
  have st: "status (Header_Set (Header_Set newResponseWriter ''X-Content-Type-Options'' ''nosniff'')
                      ''X-Content-Duration'' (Duration liveStream)) = None"
    by (simp add: Header_Set_def newResponseWriter_def)
  show ?thesis
    unfolding one two Let_def
    using m
    by (simp add: fullResponse_fields[OF st])
       (simp add: liveStream_def Header_Set_def newResponseWriter_def respHeaders_def Close_def)
qed

end
